theory Spec2Isabelle
  imports Main
begin

chapter \<open>The bot, as functions\<close>

section \<open>Platform values shared by the handlers\<close>

text \<open>
  A delivery target is a channel object. \<^verbatim>\<open>isinstance(target, discord.Thread)\<close> is the test
  for the second constructor; the channel a message was posted in may itself be a thread.
\<close>

datatype chan = TextChannel nat | Thread nat

fun is_Thread :: "chan \<Rightarrow> bool" where
  "is_Thread (Thread _) = True"
| "is_Thread (TextChannel _) = False"

text \<open>
  The exceptions the handlers distinguish. \<^verbatim>\<open>discord.Forbidden\<close> and
  \<^verbatim>\<open>discord.NotFound\<close> are subclasses of \<^verbatim>\<open>discord.HTTPException\<close>; the
  constructor \<open>HTTPException\<close> stands for any other instance of that class and carries the two
  attributes the PDF upload loop reads from it, \<^verbatim>\<open>code\<close> and \<^verbatim>\<open>retry_after\<close>.
  \<open>Exception\<close> is any other subclass of \<^verbatim>\<open>Exception\<close>, with its message.
\<close>

datatype exn =
    Forbidden
  | NotFound
  | HTTPException int nat
  | TimeoutError
  | ValueError string
  | Exception string

fun is_HTTPException :: "exn \<Rightarrow> bool" where
  "is_HTTPException Forbidden = True"
| "is_HTTPException NotFound = True"
| "is_HTTPException (HTTPException _ _) = True"
| "is_HTTPException _ = False"

section \<open>What the bot does, as a trace\<close>

text \<open>
  The text of a message is a list of pieces, so that a thread mention (\<^verbatim>\<open>target.mention\<close> in
  an f-string) and the warning and error signs can be told from literal text. \<open>StrOf e\<close> is
  \<^verbatim>\<open>str(e)\<close>, \<open>Num n\<close> a formatted number.
\<close>

datatype piece = Lit string | WarningSign | CrossMark | MentionOf chan | StrOf exn | Num nat

type_synonym content = "piece list"

text \<open>
  What is handed to \<^verbatim>\<open>send\<close>: a file under its file name (\<open>PageFile i\<close> is the file named
  \<^verbatim>\<open>page_i.png\<close>), a text, both, or an embed. Of an
  embed the model keeps the fields \<^verbatim>\<open>create_referral_embed\<close> sets; \<open>embed_red\<close> says that its
  colour is red and not blue.
\<close>

record embed =
  embed_title :: string
  embed_description :: string
  embed_url :: string
  embed_red :: bool
  embed_image :: "string option"
  footer_text :: string
  footer_icon :: "string option"

datatype item =
    FileItem string
  | PageFile nat
  | TextItem content
  | FileWithText string content
  | EmbedItem embed

text \<open>The content kinds a workflow exists for.\<close>

datatype kind = ImageBatch | Pdf | Docx | Video | YouTube | Referral

text \<open>
  Every call to the platform is recorded with how it ended (\<open>None\<close>: it returned, \<open>Some e\<close>: it
  raised \<open>e\<close>). The four uses of \<^verbatim>\<open>asyncio.sleep\<close> are told apart: \<open>Backoff d\<close> is
  \<^verbatim>\<open>sleep(retry_delay)\<close> between two creation attempts, \<open>Settle\<close> the
  \<^verbatim>\<open>sleep(2)\<close> after a thread was created, \<open>Cooldown d\<close> the \<^verbatim>\<open>sleep(e.retry_after)\<close>
  after a rate-limit answer, \<open>Pause\<close> the \<^verbatim>\<open>sleep(0.5)\<close> between two uploads or before an edit.
  \<open>ShowView k\<close> is the edit that attaches the two buttons of the options view of kind \<open>k\<close> to
  the status message; \<open>FetchMetadata url\<close> is the call of \<^verbatim>\<open>get_website_metadata\<close>;
  \<open>Defer\<close> and \<open>DisableButtons\<close> are the two answers a button press can get
  (\<^verbatim>\<open>interaction.response.defer()\<close>, and \<^verbatim>\<open>interaction.response.edit_message(view=self)\<close>
  after every button was disabled); \<open>ReadAttachment\<close> is \<^verbatim>\<open>attachment.read()\<close>.
\<close>

datatype event =
    Send chan item "exn option"
  | CreateThread nat string "exn + nat"
  | ScanNotification
  | EditStatus content "exn option"
  | DeleteStatus "exn option"
  | DeleteSource "exn option"
  | DeleteThread chan "exn option"
  | ShowView kind "exn option"
  | FetchMetadata string
  | Defer "exn option"
  | DisableButtons "exn option"
  | ReadAttachment "exn option"
  | ProcessCommands
  | Backoff nat
  | Settle
  | Cooldown nat
  | Pause

text \<open>
  A run is what a piece of a coroutine leaves behind: its value or the exception that ended it,
  and the calls made. \<open>then_run\<close> is sequencing (an exception skips what follows), \<open>call\<close> one
  call to the platform whose outcome is given, \<open>try_except\<close> a \<^verbatim>\<open>try\<close> with one handler
  for every exception.
\<close>

type_synonym 'a run = "(exn + 'a) \<times> event list"

definition then_run :: "'a run \<Rightarrow> ('a \<Rightarrow> 'b run) \<Rightarrow> 'b run" where
  "then_run r f =
     (case r of
        (Inl e, evs) \<Rightarrow> (Inl e, evs)
      | (Inr a, evs) \<Rightarrow> (case f a of (b, evs') \<Rightarrow> (b, evs @ evs')))"

definition call :: "(exn option \<Rightarrow> event) \<Rightarrow> exn option \<Rightarrow> unit run" where
  "call ev outcome =
     (case outcome of None \<Rightarrow> (Inr (), [ev None]) | Some e \<Rightarrow> (Inl e, [ev (Some e)]))"

definition try_except :: "'a run \<Rightarrow> (exn \<Rightarrow> 'a run) \<Rightarrow> 'a run" where
  "try_except r handler =
     (case r of
        (Inl e, evs) \<Rightarrow> (case handler e of (b, evs') \<Rightarrow> (b, evs @ evs'))
      | (Inr a, evs) \<Rightarrow> (Inr a, evs))"

definition return :: "'a \<Rightarrow> 'a run" where
  "return a = (Inr a, [])"

section \<open>Thread creation with retry\<close>

text \<open>
  \<^verbatim>\<open>create_thread_with_retry\<close> is the same loop in \<^verbatim>\<open>PDFOptionsView\<close>,
  \<^verbatim>\<open>DOCXOptionsView\<close>, \<^verbatim>\<open>ImageBatchView\<close> and \<^verbatim>\<open>LocationOptionsView\<close>:
  \<^verbatim>\<open>for attempt in range(max_retries)\<close> with \<^verbatim>\<open>max_retries = 3\<close> and
  \<^verbatim>\<open>retry_delay = 2\<close>. The answer of the platform to the call of
  \<^verbatim>\<open>channel.create_thread\<close> made in attempt \<open>attempt\<close> is \<open>create attempt\<close>: the identifier
  of the new thread, or an exception. After a creation the loop waits, scans the recent history
  for the notification of the platform inside a \<^verbatim>\<open>try\<close> that swallows every exception, and
  returns the thread. The result \<open>None\<close> is Python's \<^verbatim>\<open>None\<close>.
\<close>

fun retry_loop ::
  "(nat \<Rightarrow> exn + nat) \<Rightarrow> string \<Rightarrow> nat \<Rightarrow> nat list \<Rightarrow> nat \<Rightarrow> chan option \<times> event list" where
  "retry_loop create thread_name max_retries [] retry_delay = (None, [])"
| "retry_loop create thread_name max_retries (attempt # rest) retry_delay =
     (case create attempt of
        Inr tid \<Rightarrow>
          (Some (Thread tid), [CreateThread attempt thread_name (Inr tid), Settle, ScanNotification])
      | Inl e \<Rightarrow>
          if e = Forbidden then
            if attempt = max_retries - 1 then (None, [CreateThread attempt thread_name (Inl e)])
            else
              (case retry_loop create thread_name max_retries rest (retry_delay * 2) of
                 (r, evs) \<Rightarrow>
                   (r, [CreateThread attempt thread_name (Inl e), Backoff retry_delay] @ evs))
          else (None, [CreateThread attempt thread_name (Inl e)]))"

definition create_thread_with_retry ::
  "(nat \<Rightarrow> exn + nat) \<Rightarrow> string \<Rightarrow> chan option \<times> event list" where
  "create_thread_with_retry create thread_name = retry_loop create thread_name 3 [0..<3] 2"

text \<open>The attempts made and the delays waited between them, read off a trace.\<close>

fun attempts :: "event list \<Rightarrow> nat list" where
  "attempts [] = []"
| "attempts (CreateThread attempt _ _ # evs) = attempt # attempts evs"
| "attempts (_ # evs) = attempts evs"

fun backoff_delays :: "event list \<Rightarrow> nat list" where
  "backoff_delays [] = []"
| "backoff_delays (Backoff d # evs) = d # backoff_delays evs"
| "backoff_delays (_ # evs) = backoff_delays evs"

section \<open>Thread names\<close>

text \<open>
  Every options view derives the name of the thread it is about to create and cuts it to the
  platform limit before calling the creator (\<^verbatim>\<open>process_pdf\<close>, \<^verbatim>\<open>process_docx\<close>,
  \<^verbatim>\<open>process_video\<close>, \<^verbatim>\<open>process_images\<close>, \<^verbatim>\<open>process_youtube\<close>):
  \<^verbatim>\<open>if len(thread_name) > 100: thread_name = thread_name[:97] + "..."\<close>.
  A name is a list of characters; \<^verbatim>\<open>len\<close> counts them.
\<close>

definition truncate_thread_name :: "string \<Rightarrow> string" where
  "truncate_thread_name thread_name =
     (if length thread_name > 100 then take 97 thread_name @ ''...'' else thread_name)"

section \<open>Text helpers of the standard library\<close>

text \<open>
  \<^verbatim>\<open>str.lower\<close> on the letters A to Z (file names are compared with ASCII suffixes only),
  \<^verbatim>\<open>str.endswith\<close>, and \<^verbatim>\<open>os.path.splitext\<close>. The last one follows
  \<^verbatim>\<open>genericpath._splitext\<close>: the extension starts at the last dot, if that dot comes after the
  last path separator and some character between the two is not a dot. The separators are a
  parameter: \<^verbatim>\<open>/\<close> on POSIX, backslash and \<^verbatim>\<open>/\<close> on Windows.
\<close>

definition lower_char :: "char \<Rightarrow> char" where
  "lower_char c =
     (case map_of (zip ''ABCDEFGHIJKLMNOPQRSTUVWXYZ'' ''abcdefghijklmnopqrstuvwxyz'') c of
        Some d \<Rightarrow> d
      | None \<Rightarrow> c)"

definition lower :: "string \<Rightarrow> string" where
  "lower s = map lower_char s"

definition endswith :: "string \<Rightarrow> string \<Rightarrow> bool" where
  "endswith s suffix = (length suffix \<le> length s \<and> drop (length s - length suffix) s = suffix)"

fun rfind_from :: "(char \<Rightarrow> bool) \<Rightarrow> string \<Rightarrow> int \<Rightarrow> int \<Rightarrow> int" where
  "rfind_from P [] i found = found"
| "rfind_from P (c # cs) i found = rfind_from P cs (i + 1) (if P c then i else found)"

definition rfind :: "(char \<Rightarrow> bool) \<Rightarrow> string \<Rightarrow> int" where
  "rfind P p = rfind_from P p 0 (- 1)"

definition splitext :: "char list \<Rightarrow> string \<Rightarrow> string \<times> string" where
  "splitext seps p =
     (let sepIndex = rfind (\<lambda>c. c \<in> set seps) p;
          dotIndex = rfind (\<lambda>c. c = CHR ''.'') p
      in if dotIndex > sepIndex \<and>
            list_ex (\<lambda>c. c \<noteq> CHR ''.'')
              (take (nat (dotIndex - sepIndex - 1)) (drop (nat (sepIndex + 1)) p))
         then (take (nat dotIndex) p, drop (nat dotIndex) p)
         else (p, []))"

section \<open>Messages and the entry points of the handlers\<close>

text \<open>An attachment; \<open>size_bytes\<close> is its \<^verbatim>\<open>size\<close>.\<close>

record attachment =
  filename :: string
  size_bytes :: nat
  attachment_id :: nat

text \<open>
  \<open>author_is_bot\<close> is \<^verbatim>\<open>message.author == bot.user\<close>; \<open>in_guild\<close> says that
  \<^verbatim>\<open>message.guild\<close> is a guild and not \<^verbatim>\<open>None\<close>. In a guild
  \<^verbatim>\<open>message.author == message.guild.me\<close> compares the same two identifiers.
\<close>

record message =
  message_id :: nat
  author_is_bot :: bool
  in_guild :: bool
  attachments :: "attachment list"
  content :: string
  channel :: chan

fun channel_id :: "chan \<Rightarrow> nat" where
  "channel_id (TextChannel i) = i"
| "channel_id (Thread i) = i"

record permissions =
  send_messages :: bool
  attach_files :: bool
  manage_messages :: bool
  create_public_threads :: bool
  manage_threads :: bool

text \<open>
  How the calls an entry point makes end: \<open>notice\<close> for the send (or reply) of a warning,
  \<open>prompt\<close> for the send of the status message, \<open>view\<close> for the edit that attaches the buttons.
\<close>

record calls =
  notice :: "exn option"
  prompt :: "exn option"
  view :: "exn option"

definition lacks :: "string list \<Rightarrow> item" where
  "lacks missing_permissions =
     TextItem ([WarningSign, Lit '' Bot lacks required permissions: ''] @ map Lit missing_permissions)"

text \<open>
  Each entry point returns the handler's boolean, or the exception that left it, and the calls
  it made. \<open>bot_member\<close> is \<open>None\<close> when the channel has no guild (or no member object for the
  bot): the permission check is skipped then, as in the source.
\<close>

definition IMAGE_EXTENSIONS :: "string list" where
  "IMAGE_EXTENSIONS = [''.png'', ''.jpg'', ''.jpeg'', ''.gif'', ''.webp'', ''.bmp'', ''.tiff'']"

definition image_attachments :: "char list \<Rightarrow> message \<Rightarrow> attachment list" where
  "image_attachments seps m =
     filter (\<lambda>a. snd (splitext seps (lower (filename a))) \<in> set IMAGE_EXTENSIONS) (attachments m)"

definition handle_image_batch ::
  "char list \<Rightarrow> permissions option \<Rightarrow> calls \<Rightarrow> message \<Rightarrow> (exn + bool) \<times> event list" where
  "handle_image_batch seps bot_member api m =
     (if attachments m = [] then (Inr False, [])
      else if length (image_attachments seps m) < 2 then (Inr False, [])
      else
        let missing_permissions =
              (case bot_member of
                 None \<Rightarrow> []
               | Some p \<Rightarrow>
                   (if send_messages p then [] else [''Send Messages'']) @
                   (if attach_files p then [] else [''Attach Files'']) @
                   (if manage_messages p then [] else [''Manage Messages'']))
        in if missing_permissions \<noteq> [] then
             (case notice api of
                Some e \<Rightarrow> (Inl e, [Send (channel m) (lacks missing_permissions) (Some e)])
              | None \<Rightarrow> (Inr False, [Send (channel m) (lacks missing_permissions) None]))
           else
             let found = TextItem [Lit ''Found '', Num (length (image_attachments seps m)),
                                   Lit '' images. Choose an option:'']
             in (case prompt api of
                   Some e \<Rightarrow> (Inr False, [Send (channel m) found (Some e)])
                 | None \<Rightarrow>
                     (case view api of
                        Some e \<Rightarrow>
                          (Inr False, [Send (channel m) found None, ShowView ImageBatch (Some e)])
                      | None \<Rightarrow>
                          (Inr True, [Send (channel m) found None, ShowView ImageBatch None]))))"

text \<open>
  \<^verbatim>\<open>handle_pdf\<close> keeps the identifiers of the messages it is working on in the module's set
  \<^verbatim>\<open>_processed_pdf_messages\<close>, passed in and returned here. \<open>max_file_size\<close> is
  \<^verbatim>\<open>MAX_FILE_SIZE\<close>, read from the environment (8 MB when unset).
\<close>

definition handle_pdf ::
  "nat \<Rightarrow> permissions option \<Rightarrow> calls \<Rightarrow> nat set \<Rightarrow> message \<Rightarrow> (exn + bool) \<times> event list \<times> nat set" where
  "handle_pdf max_file_size bot_member api processed m =
     (if message_id m \<in> processed then (Inr True, [], processed)
      else if attachments m = [] then (Inr False, [], processed)
      else
        (case filter (\<lambda>a. endswith (lower (filename a)) ''.pdf'') (attachments m) of
           [] \<Rightarrow> (Inr False, [], processed)
         | attachment # _ \<Rightarrow>
             let added = insert (message_id m) processed;
                 removed = added - {message_id m}
             in if size_bytes attachment > max_file_size then
                  (let too_large = TextItem [WarningSign, Lit '' PDF too large: '',
                                              Lit (filename attachment)]
                   in case notice api of
                        Some e \<Rightarrow> (Inl e, [Send (channel m) too_large (Some e)], added)
                      | None \<Rightarrow> (Inr True, [Send (channel m) too_large None], removed))
                else
                  let missing_permissions =
                        (case bot_member of
                           None \<Rightarrow> []
                         | Some p \<Rightarrow>
                             (if send_messages p then [] else [''Send Messages'']) @
                             (if attach_files p then [] else [''Attach Files'']) @
                             (if create_public_threads p then [] else [''Create Public Threads'']) @
                             (if manage_threads p then [] else [''Manage Threads'']))
                  in if missing_permissions \<noteq> [] then
                       (case notice api of
                          Some e \<Rightarrow>
                            (Inl e, [Send (channel m) (lacks missing_permissions) (Some e)], added)
                        | None \<Rightarrow>
                            (Inr True, [Send (channel m) (lacks missing_permissions) None], removed))
                     else
                       let ask = TextItem [Lit ''Choose an option for this PDF:'']
                       in (case prompt api of
                             Some e \<Rightarrow> (Inr False, [Send (channel m) ask (Some e)], removed)
                           | None \<Rightarrow>
                               (case view api of
                                  Some e \<Rightarrow>
                                    (Inr False,
                                     [Send (channel m) ask None, ShowView Pdf (Some e)], removed)
                                | None \<Rightarrow>
                                    (Inr True,
                                     [Send (channel m) ask None, ShowView Pdf None], added)))))"

definition handle_docx ::
  "permissions option \<Rightarrow> calls \<Rightarrow> message \<Rightarrow> (exn + bool) \<times> event list" where
  "handle_docx bot_member api m =
     (if attachments m = [] then (Inr False, [])
      else
        (case filter (\<lambda>a. endswith (lower (filename a)) ''.docx'') (attachments m) of
           [] \<Rightarrow> (Inr False, [])
         | attachment # _ \<Rightarrow>
             if size_bytes attachment > 8 * 1024 * 1024 then
               (let too_large = TextItem [WarningSign, Lit '' DOCX too large: '',
                                           Lit (filename attachment), Lit '' (max 8MB)'']
                in case notice api of
                     Some e \<Rightarrow> (Inl e, [Send (channel m) too_large (Some e)])
                   | None \<Rightarrow> (Inr True, [Send (channel m) too_large None]))
             else
               let missing_permissions =
                     (case bot_member of
                        None \<Rightarrow> []
                      | Some p \<Rightarrow>
                          (if send_messages p then [] else [''Send Messages'']) @
                          (if attach_files p then [] else [''Attach Files'']))
               in if missing_permissions \<noteq> [] then
                    (case notice api of
                       Some e \<Rightarrow> (Inl e, [Send (channel m) (lacks missing_permissions) (Some e)])
                     | None \<Rightarrow> (Inr True, [Send (channel m) (lacks missing_permissions) None]))
                  else
                    let ask = TextItem [Lit ''Choose an option for this DOCX:'']
                    in (case prompt api of
                          Some e \<Rightarrow> (Inr False, [Send (channel m) ask (Some e)])
                        | None \<Rightarrow>
                            (case view api of
                               Some e \<Rightarrow>
                                 (Inr False, [Send (channel m) ask None, ShowView Docx (Some e)])
                             | None \<Rightarrow>
                                 (Inr True, [Send (channel m) ask None, ShowView Docx None])))))"

text \<open>
  \<^verbatim>\<open>re.search(VIDEO_REGEX, filename, re.IGNORECASE)\<close> with the pattern
  \<^verbatim>\<open>\.(mov|mp4)$\<close>: the name ends with one of the two extensions, in any case; \<^verbatim>\<open>$\<close>
  also matches before a newline that ends the name.
\<close>

definition video_match :: "string \<Rightarrow> bool" where
  "video_match name =
     (let l = lower name
      in endswith l ''.mov'' \<or> endswith l ''.mp4'' \<or>
         endswith l (''.mov'' @ [CHR 0x0A]) \<or> endswith l (''.mp4'' @ [CHR 0x0A]))"

text \<open>
  \<^verbatim>\<open>handle_mp4\<close> makes all its calls outside any \<^verbatim>\<open>try\<close>, so an exception of a call
  leaves the handler. Its loop over the attachments returns at the first video. The module's set
  \<^verbatim>\<open>processed_files\<close> holds attachment identifiers.
\<close>

definition handle_mp4 ::
  "calls \<Rightarrow> nat set \<Rightarrow> message \<Rightarrow> (exn + bool) \<times> event list \<times> nat set" where
  "handle_mp4 api processed_files m =
     (if \<not> in_guild m then (Inl (Exception ''AttributeError''), [], processed_files)
      else if author_is_bot m then (Inr False, [], processed_files)
      else
        (case filter (\<lambda>a. video_match (filename a)) (attachments m) of
           [] \<Rightarrow> (Inr False, [], processed_files)
         | attachment # _ \<Rightarrow>
             if attachment_id attachment \<in> processed_files then
               (let already = TextItem [Lit ''This video has already been processed recently.'']
                in case notice api of
                     Some e \<Rightarrow> (Inl e, [Send (channel m) already (Some e)], processed_files)
                   | None \<Rightarrow> (Inr True, [Send (channel m) already None], processed_files))
             else if size_bytes attachment > 500 * 1024 * 1024 then
               (let too_large = TextItem [WarningSign, Lit '' Video is too large'']
                in case notice api of
                     Some e \<Rightarrow> (Inl e, [Send (channel m) too_large (Some e)], processed_files)
                   | None \<Rightarrow> (Inr True, [Send (channel m) too_large None], processed_files))
             else
               let added = insert (attachment_id attachment) processed_files;
                   detected = TextItem [Lit ''Video detected: '', Lit (filename attachment)]
               in (case prompt api of
                     Some e \<Rightarrow> (Inl e, [Send (channel m) detected (Some e)], added)
                   | None \<Rightarrow>
                       (case view api of
                          Some e \<Rightarrow>
                            (Inl e, [Send (channel m) detected None, ShowView Video (Some e)], added)
                        | None \<Rightarrow>
                            (Inr True,
                             [Send (channel m) detected None, ShowView Video None], added)))))"

section \<open>Referral links: metadata and embed\<close>

text \<open>
  Python's truth value of a string or \<^verbatim>\<open>None\<close>, and the substring test \<^verbatim>\<open>sub in s\<close>.
\<close>

definition truthy :: "string option \<Rightarrow> bool" where
  "truthy v = (case v of None \<Rightarrow> False | Some s \<Rightarrow> s \<noteq> [])"

fun contains :: "string \<Rightarrow> string \<Rightarrow> bool" where
  "contains [] sub = (sub = [])"
| "contains (c # cs) sub = (take (length sub) (c # cs) = sub \<or> contains cs sub)"

text \<open>
  \<^verbatim>\<open>urllib.parse.urlparse(url).netloc\<close> for a URL of ASCII characters without leading control
  characters, tabs or line breaks (a match of \<^verbatim>\<open>URL_REGEX\<close> has none): the scheme is cut at the
  first colon when what stands before it is a scheme, the network location runs from \<^verbatim>\<open>//\<close>
  to the first of \<^verbatim>\<open>/\<close>, \<^verbatim>\<open>?\<close> and \<^verbatim>\<open>#\<close>, and an opening without a closing bracket in it
  (or the reverse) raises \<^verbatim>\<open>ValueError("Invalid IPv6 URL")\<close>. The validation of what stands
  between two brackets, which later versions of the library add, is left out; the handlers
  below therefore take the parser as a parameter, and this function is one value of it.
\<close>

definition scheme_chars :: "char list" where
  "scheme_chars = ''abcdefghijklmnopqrstuvwxyzABCDEFGHIJKLMNOPQRSTUVWXYZ0123456789+-.''"

definition isalpha :: "char \<Rightarrow> bool" where
  "isalpha c = (c \<in> set ''abcdefghijklmnopqrstuvwxyzABCDEFGHIJKLMNOPQRSTUVWXYZ'')"

definition after_scheme :: "string \<Rightarrow> string" where
  "after_scheme url =
     (let i = length (takeWhile (\<lambda>c. c \<noteq> CHR '':'') url)
      in if i < length url \<and> i > 0 \<and> isalpha (hd url) \<and>
            list_all (\<lambda>c. c \<in> set scheme_chars) (take i url)
         then drop (i + 1) url
         else url)"

definition urlparse_netloc :: "string \<Rightarrow> exn + string" where
  "urlparse_netloc url =
     (let rest = after_scheme url
      in if take 2 rest = ''//'' then
           (let netloc = takeWhile (\<lambda>c. c \<notin> set ''/?#'') (drop 2 rest)
            in if (CHR ''['' \<in> set netloc \<and> CHR '']'' \<notin> set netloc) \<or>
                  (CHR '']'' \<in> set netloc \<and> CHR ''['' \<notin> set netloc)
               then Inl (ValueError ''Invalid IPv6 URL'')
               else Inr netloc)
         else Inr [])"

text \<open>
  What the HTML parser yields for a page (\<^verbatim>\<open>title\<close>, \<^verbatim>\<open>description\<close>, \<^verbatim>\<open>image_url\<close>,
  \<^verbatim>\<open>favicon\<close> in \<^verbatim>\<open>extract_metadata_from_html\<close>), and the dictionary the functions return.
  \<open>image_url\<close> is the key \<^verbatim>\<open>image\<close>; \<open>error = None\<close> says that the key \<^verbatim>\<open>error\<close> is absent,
  all other keys are always present and \<open>None\<close> is their value \<^verbatim>\<open>None\<close>.
\<close>

record page =
  page_title :: "string option"
  page_description :: "string option"
  page_image :: "string option"
  page_favicon :: "string option"

record metadata =
  title :: "string option"
  description :: "string option"
  image_url :: "string option"
  favicon :: "string option"
  domain :: string
  url :: string
  error :: "string option"

text \<open>
  The world outside: the parser of URLs, the three fetch strategies (each returns the HTML or
  \<^verbatim>\<open>None\<close>; all of them catch their exceptions), whether Selenium could be imported, and the
  HTML parser with all that \<^verbatim>\<open>extract_metadata_from_html\<close> does inside its \<^verbatim>\<open>try\<close>
  (\<open>None\<close> when an exception was caught there).
\<close>

record web =
  netloc_of :: "string \<Rightarrow> exn + string"
  fetch_with_standard_request :: "string \<Rightarrow> string option"
  fetch_with_mobile_emulation :: "string \<Rightarrow> string option"
  fetch_with_selenium :: "string \<Rightarrow> string option"
  SELENIUM_AVAILABLE :: bool
  parse_html :: "string \<Rightarrow> string \<Rightarrow> page option"

definition extract_metadata_from_html :: "web \<Rightarrow> string option \<Rightarrow> string \<Rightarrow> metadata option" where
  "extract_metadata_from_html w html u =
     (case html of
        None \<Rightarrow> None
      | Some h \<Rightarrow>
          if h = [] then None
          else
            (case parse_html w h u of
               None \<Rightarrow> None
             | Some pg \<Rightarrow>
                 (case netloc_of w u of
                    Inl e \<Rightarrow> None
                  | Inr d \<Rightarrow>
                      Some \<lparr>title = page_title pg, description = page_description pg,
                            image_url = page_image pg, favicon = page_favicon pg,
                            domain = d, url = u, error = None\<rparr>)))"

text \<open>
  The loop \<^verbatim>\<open>for key in ['title', 'description', 'image']\<close> that fills what the first
  dictionary misses from the mobile one.
\<close>

definition update_missing :: "metadata \<Rightarrow> metadata \<Rightarrow> metadata" where
  "update_missing md mobile_metadata =
     md\<lparr>title := (if \<not> truthy (title md) \<and> truthy (title mobile_metadata)
                   then title mobile_metadata else title md),
        description := (if \<not> truthy (description md) \<and> truthy (description mobile_metadata)
                         then description mobile_metadata else description md),
        image_url := (if \<not> truthy (image_url md) \<and> truthy (image_url mobile_metadata)
                       then image_url mobile_metadata else image_url md)\<rparr>"

text \<open>\<^verbatim>\<open>not html or not metadata or not metadata.get('title')\<close>\<close>

definition incomplete :: "string option \<Rightarrow> metadata option \<Rightarrow> bool" where
  "incomplete html md =
     (\<not> truthy html \<or> (case md of None \<Rightarrow> True | Some d \<Rightarrow> \<not> truthy (title d)))"

definition fallback_metadata :: "string \<Rightarrow> string \<Rightarrow> metadata" where
  "fallback_metadata d u =
     (if contains d ''blofin.com'' then
        \<lparr>title = Some ''Blofin - Crypto Exchange Platform'',
         description = Some ''Blofin is a cryptocurrency exchange platform. This link appears to be a referral link. The website restricts automated access, but you can click to visit directly.'',
         image_url = None, favicon = None, domain = d, url = u, error = Some ''403 Forbidden''\<rparr>
      else
        \<lparr>title = Some (''Visit '' @ d),
         description = Some ''This website restricts automated access. Click the link to visit directly.'',
         image_url = None, favicon = None, domain = d, url = u, error = Some ''403 Forbidden''\<rparr>)"

definition get_website_metadata :: "web \<Rightarrow> string \<Rightarrow> exn + metadata" where
  "get_website_metadata w u =
     (case netloc_of w u of
        Inl e \<Rightarrow> Inl e
      | Inr d \<Rightarrow>
          let html0 = fetch_with_standard_request w u;
              metadata0 = extract_metadata_from_html w html0 u;
              after_mobile =
                (if incomplete html0 metadata0 then
                   (let html = fetch_with_mobile_emulation w u;
                        mobile_metadata = extract_metadata_from_html w html u
                    in (html,
                        case mobile_metadata of
                          None \<Rightarrow> metadata0
                        | Some mm \<Rightarrow>
                            (case metadata0 of
                               None \<Rightarrow> Some mm
                             | Some md \<Rightarrow> Some (update_missing md mm))))
                 else (html0, metadata0));
              after_selenium =
                (if incomplete (fst after_mobile) (snd after_mobile) \<and> SELENIUM_AVAILABLE w then
                   (let html = fetch_with_selenium w u;
                        selenium_metadata = extract_metadata_from_html w html u
                    in (html,
                        case selenium_metadata of
                          None \<Rightarrow> snd after_mobile
                        | Some sm \<Rightarrow> Some sm))
                 else after_mobile)
          in (case snd after_selenium of
                None \<Rightarrow> Inr (fallback_metadata d u)
              | Some md \<Rightarrow> if truthy (title md) then Inr md else Inr (fallback_metadata d u)))"

text \<open>
  \<^verbatim>\<open>x or other\<close> on a string or \<^verbatim>\<open>None\<close>, and the embed. The separator of the footer is
  the bullet U+2022, written as its three bytes.
\<close>

definition or_else :: "string option \<Rightarrow> string \<Rightarrow> string" where
  "or_else v other = (case v of None \<Rightarrow> other | Some s \<Rightarrow> if s = [] then other else s)"

definition create_referral_embed :: "string \<Rightarrow> metadata \<Rightarrow> embed" where
  "create_referral_embed u md =
     \<lparr>embed_title = or_else (title md) ''Visit Website'',
      embed_description = or_else (description md) ''No description available'',
      embed_url = u,
      embed_red = (error md \<noteq> None),
      embed_image = (if truthy (image_url md) then image_url md else None),
      footer_text =
        (case error md of
           None \<Rightarrow> domain md
         | Some err \<Rightarrow> domain md @ '' '' @ [CHR 0xE2, CHR 0x80, CHR 0xA2] @ '' '' @ err),
      footer_icon = (if truthy (favicon md) then favicon md else None)\<rparr>"

text \<open>
  \<^verbatim>\<open>handle_referral\<close>. \<open>findall_url\<close> is \<^verbatim>\<open>re.findall(URL_REGEX, _)\<close>. The calls before the
  \<^verbatim>\<open>try\<close> (the parse of the URL, the send of the status message) and the edit inside the
  handler of the \<^verbatim>\<open>try\<close> let their exception leave the function.
\<close>

record referral_calls =
  status_send :: "exn option"
  known_edit :: "exn option"
  result_edit :: "exn option"
  embed_send :: "exn option"
  status_delete :: "exn option"
  source_delete :: "exn option"
  error_edit :: "exn option"

definition referral_body ::
  "web \<Rightarrow> referral_calls \<Rightarrow> message \<Rightarrow> string \<Rightarrow> string \<Rightarrow> bool run" where
  "referral_body w api m u d =
     then_run
       (if contains d ''blofin.com''
        then call (EditStatus [WarningSign, Lit '' Fetching preview for '', Lit d]) (known_edit api)
        else return ())
       (\<lambda>_. then_run
          (case get_website_metadata w u of
             Inl e \<Rightarrow> (Inl e, [FetchMetadata u])
           | Inr md \<Rightarrow> (Inr md, [FetchMetadata u]))
          (\<lambda>md. then_run
             (let e = EmbedItem (create_referral_embed u md)
              in if error md = Some ''403 Forbidden'' then
                   then_run
                     (call (EditStatus
                              (if contains d ''blofin.com''
                               then [WarningSign, Lit '' Blofin.com blocks automated access. This appears to be a referral link. Click to visit directly.'']
                               else [WarningSign, Lit '' This website blocks automated access, but you can still click the link to visit directly.'']))
                           (result_edit api))
                     (\<lambda>_. call (Send (channel m) e) (embed_send api))
                 else if error md \<noteq> None then
                   then_run
                     (call (EditStatus [WarningSign, Lit '' Limited preview available due to access restrictions.''])
                           (result_edit api))
                     (\<lambda>_. call (Send (channel m) e) (embed_send api))
                 else
                   then_run (call (Send (channel m) e) (embed_send api))
                     (\<lambda>_. call DeleteStatus (status_delete api)))
             (\<lambda>_. then_run
                (try_except (call DeleteSource (source_delete api)) (\<lambda>e. return ()))
                (\<lambda>_. return True))))"

definition handle_referral ::
  "(string \<Rightarrow> string list) \<Rightarrow> web \<Rightarrow> referral_calls \<Rightarrow> nat \<Rightarrow> message \<Rightarrow> bool run" where
  "handle_referral findall_url w api referral_channel_id m =
     (if channel_id (channel m) \<noteq> referral_channel_id then (Inr False, [])
      else
        (case findall_url (content m) of
           [] \<Rightarrow> (Inr False, [])
         | u # _ \<Rightarrow>
             (case netloc_of w u of
                Inl e \<Rightarrow> (Inl e, [])
              | Inr d \<Rightarrow>
                  then_run
                    (call (Send (channel m) (TextItem [Lit ''Processing referral link...'']))
                          (status_send api))
                    (\<lambda>_. try_except (referral_body w api m u d)
                       (\<lambda>e. then_run
                          (call (EditStatus [CrossMark, Lit '' Error processing referral link: '', StrOf e])
                                (error_edit api))
                          (\<lambda>_. return False))))))"

section \<open>YouTube links: the entry point\<close>

text \<open>
  \<open>findall_youtube\<close> is \<^verbatim>\<open>re.findall(YOUTUBE_REGEX, _)\<close>, the list of the video identifiers in
  a text; \<open>get_video_details\<close> is the lookup at the video service, which returns the details or
  \<^verbatim>\<open>None\<close> and catches its exceptions. None of the calls of \<^verbatim>\<open>handle_youtube\<close> stands in a
  \<^verbatim>\<open>try\<close>.
\<close>

record video =
  video_title :: string
  video_description :: string

definition handle_youtube ::
  "(string \<Rightarrow> string list) \<Rightarrow> (string \<Rightarrow> video option) \<Rightarrow> calls \<Rightarrow> message \<Rightarrow> bool run" where
  "handle_youtube findall_youtube get_video_details api m =
     (case findall_youtube (content m) of
        [] \<Rightarrow> (Inr False, [])
      | video_id # _ \<Rightarrow>
          then_run
            (call (Send (channel m) (TextItem [Lit ''Getting video information...''])) (prompt api))
            (\<lambda>_. case get_video_details video_id of
                    None \<Rightarrow>
                      then_run
                        (call (EditStatus [Lit ''Couldn't get information about this YouTube video.''])
                              (notice api))
                        (\<lambda>_. return False)
                  | Some v \<Rightarrow>
                      then_run (call (ShowView YouTube) (view api)) (\<lambda>_. return True)))"

section \<open>The dispatcher\<close>

text \<open>
  \<^verbatim>\<open>on_message\<close> of \<^verbatim>\<open>bot.py\<close>. The world of one message: the path separators of the
  platform, \<^verbatim>\<open>MAX_FILE_SIZE\<close>, the bot's permissions in the channel, how the calls of each
  handler end, the two regular-expression searches, the video lookup, the web, and
  \<^verbatim>\<open>REFERRAL_CHANNEL_ID\<close> (\<open>None\<close> when unset or empty, else the number it denotes). The state
  are the two module-level sets.
\<close>

record world =
  seps :: "char list"
  max_file_size :: nat
  bot_member :: "permissions option"
  api :: "kind \<Rightarrow> calls"
  findall_youtube :: "string \<Rightarrow> string list"
  get_video_details :: "string \<Rightarrow> video option"
  findall_url :: "string \<Rightarrow> string list"
  the_web :: web
  referral_api :: referral_calls
  REFERRAL_CHANNEL_ID :: "nat option"

record sets =
  processed_pdf_messages :: "nat set"
  processed_files :: "nat set"

text \<open>
  The first statement after the commands: \<^verbatim>\<open>if message.attachments:\<close> with the three
  attachment handlers nested, each asked only when the one before returned \<^verbatim>\<open>False\<close>.
\<close>

definition attachment_handlers :: "world \<Rightarrow> sets \<Rightarrow> message \<Rightarrow> unit run \<times> sets" where
  "attachment_handlers w st m =
     (if attachments m \<noteq> [] then
        (case handle_image_batch (seps w) (bot_member w) (api w ImageBatch) m of
           (Inl e, evs) \<Rightarrow> ((Inl e, evs), st)
         | (Inr images_handled, evs) \<Rightarrow>
             if \<not> images_handled then
               (case handle_pdf (max_file_size w) (bot_member w) (api w Pdf)
                       (processed_pdf_messages st) m of
                  (Inl e, evs', pr) \<Rightarrow> ((Inl e, evs @ evs'), st\<lparr>processed_pdf_messages := pr\<rparr>)
                | (Inr pdf_handled, evs', pr) \<Rightarrow>
                    if \<not> pdf_handled then
                      (case handle_docx (bot_member w) (api w Docx) m of
                         (Inl e, evs'') \<Rightarrow>
                           ((Inl e, evs @ evs' @ evs''), st\<lparr>processed_pdf_messages := pr\<rparr>)
                       | (Inr docx_handled, evs'') \<Rightarrow>
                           ((Inr (), evs @ evs' @ evs''), st\<lparr>processed_pdf_messages := pr\<rparr>))
                    else ((Inr (), evs @ evs'), st\<lparr>processed_pdf_messages := pr\<rparr>))
             else ((Inr (), evs), st))
      else ((Inr (), []), st))"

text \<open>
  The second statement: the video handler for every message, then the YouTube handler, then,
  when a referral channel is configured, the referral handler.
\<close>

definition text_handlers :: "world \<Rightarrow> sets \<Rightarrow> message \<Rightarrow> unit run \<times> sets" where
  "text_handlers w st m =
     (case handle_mp4 (api w Video) (processed_files st) m of
        (Inl e, evs, pf) \<Rightarrow> ((Inl e, evs), st\<lparr>processed_files := pf\<rparr>)
      | (Inr mp4_handled, evs, pf) \<Rightarrow>
          if \<not> mp4_handled then
            (case handle_youtube (findall_youtube w) (get_video_details w) (api w YouTube) m of
               (Inl e, evs') \<Rightarrow> ((Inl e, evs @ evs'), st\<lparr>processed_files := pf\<rparr>)
             | (Inr youtube_handled, evs') \<Rightarrow>
                 if \<not> youtube_handled \<and> REFERRAL_CHANNEL_ID w \<noteq> None then
                   (case handle_referral (findall_url w) (the_web w) (referral_api w)
                           (the (REFERRAL_CHANNEL_ID w)) m of
                      (Inl e, evs'') \<Rightarrow>
                        ((Inl e, evs @ evs' @ evs''), st\<lparr>processed_files := pf\<rparr>)
                    | (Inr referral_handled, evs'') \<Rightarrow>
                        ((Inr (), evs @ evs' @ evs''), st\<lparr>processed_files := pf\<rparr>))
                 else ((Inr (), evs @ evs'), st\<lparr>processed_files := pf\<rparr>))
          else ((Inr (), evs), st\<lparr>processed_files := pf\<rparr>))"

definition on_message :: "world \<Rightarrow> sets \<Rightarrow> message \<Rightarrow> unit run \<times> sets" where
  "on_message w st m =
     (if author_is_bot m then ((Inr (), []), st)
      else
        (case attachment_handlers w st m of
           ((Inl e, evs), st') \<Rightarrow> ((Inl e, ProcessCommands # evs), st')
         | ((Inr _, evs), st') \<Rightarrow>
             (case text_handlers w st' m of
                ((r, evs'), st'') \<Rightarrow> ((r, ProcessCommands # evs @ evs'), st''))))"

text \<open>
  The workflows a trace starts: an options view attached to its status message, or, for a
  referral link, which has no options view, the fetch of the metadata.
\<close>

fun invoked :: "event list \<Rightarrow> kind list" where
  "invoked [] = []"
| "invoked (ShowView k None # evs) = k # invoked evs"
| "invoked (FetchMetadata u # evs) = Referral # invoked evs"
| "invoked (_ # evs) = invoked evs"

text \<open>The kinds of the workflows one message starts, in the order they are started.\<close>

definition dispatched :: "world \<Rightarrow> sets \<Rightarrow> message \<Rightarrow> kind list" where
  "dispatched w st m = invoked (snd (fst (on_message w st m)))"

definition attachment_kinds :: "kind list" where
  "attachment_kinds = [ImageBatch, Pdf, Docx]"

definition text_kinds :: "kind list" where
  "text_kinds = [Video, YouTube, Referral]"

section \<open>The options views\<close>

text \<open>
  The five views (\<^verbatim>\<open>PDFOptionsView\<close>, \<^verbatim>\<open>DOCXOptionsView\<close>, \<^verbatim>\<open>ImageBatchView\<close>,
  \<^verbatim>\<open>LocationOptionsView\<close>, \<^verbatim>\<open>YouTubeOptionsView\<close>) have the same two callbacks,
  \<^verbatim>\<open>create_thread\<close> and \<^verbatim>\<open>post_here\<close>, which differ in the value of \<^verbatim>\<open>use_thread\<close>
  they pass to the processing method of the view. That method is the parameter \<open>process\<close>. The
  flag is tested and set with no \<^verbatim>\<open>await\<close> in between, so a press is one step on it.
\<close>

datatype button = Create_Thread | Post_Here

record view_state =
  button_clicked :: bool

record press_calls =
  defer_outcome :: "exn option"
  edit_message_outcome :: "exn option"

definition press ::
  "(bool \<Rightarrow> unit run) \<Rightarrow> press_calls \<Rightarrow> button \<Rightarrow> view_state \<Rightarrow> unit run \<times> view_state" where
  "press process interaction b v =
     (if button_clicked v then (call Defer (defer_outcome interaction), v)
      else
        (then_run (call DisableButtons (edit_message_outcome interaction))
           (\<lambda>_. process (b = Create_Thread)),
         v\<lparr>button_clicked := True\<rparr>))"

text \<open>Presses one after the other; an exception of one callback does not reach the next.\<close>

fun presses ::
  "(bool \<Rightarrow> unit run) \<Rightarrow> (button \<times> press_calls) list \<Rightarrow> view_state \<Rightarrow> event list \<times> view_state" where
  "presses process [] v = ([], v)"
| "presses process ((b, interaction) # rest) v =
     (case press process interaction b v of
        ((r, evs), v') \<Rightarrow>
          (case presses process rest v' of (evs', v'') \<Rightarrow> (evs @ evs', v'')))"

section \<open>The calls of a workflow\<close>

text \<open>
  How the calls of a running workflow end, by what they are asked to do: the edit of the status
  message to a content, the send of an item to a target and its repetition after a rate-limit
  answer, the deletions of the status message, of the source message and of a thread.
\<close>

record platform =
  edit :: "content \<Rightarrow> exn option"
  send :: "chan \<Rightarrow> item \<Rightarrow> exn option"
  resend :: "chan \<Rightarrow> item \<Rightarrow> exn option"
  delete_status :: "exn option"
  delete_source :: "exn option"
  delete_thread :: "chan \<Rightarrow> exn option"

text \<open>
  What the user sees of the status message after a trace, when it showed \<open>s\<close> before; the
  items that reached a target; whether a text mentions a thread.
\<close>

datatype status = Shown content | Deleted

fun final_status :: "status \<Rightarrow> event list \<Rightarrow> status" where
  "final_status s [] = s"
| "final_status s (EditStatus c None # evs) = final_status (Shown c) evs"
| "final_status s (DeleteStatus None # evs) = final_status Deleted evs"
| "final_status s (_ # evs) = final_status s evs"

fun delivered :: "event list \<Rightarrow> (chan \<times> item) list" where
  "delivered [] = []"
| "delivered (Send target i None # evs) = (target, i) # delivered evs"
| "delivered (_ # evs) = delivered evs"

fun is_mention :: "piece \<Rightarrow> bool" where
  "is_mention (MentionOf _) = True"
| "is_mention _ = False"

definition has_mention :: "content \<Rightarrow> bool" where
  "has_mention c = list_ex is_mention c"

section \<open>The PDF workflow\<close>

text \<open>
  The bytes of the attachment, as far as the workflow can tell them apart: \<open>None\<close> when
  \<^verbatim>\<open>fitz.open\<close> raises on them, else the pages, of which each either is watermarked and
  rasterised or raises on the way.
\<close>

datatype pdf_page = Renders | Fails

type_synonym pdf = "pdf_page list option"

text \<open>
  The upload of one page in \<^verbatim>\<open>convert_and_upload_pdf\<close>: an \<^verbatim>\<open>HTTPException\<close> with
  \<^verbatim>\<open>code == 429\<close> is answered by \<^verbatim>\<open>sleep(e.retry_after)\<close> and a second send, whose
  exception is not caught; any other exception is raised again.
\<close>

definition send_page :: "platform \<Rightarrow> chan \<Rightarrow> nat \<Rightarrow> unit run" where
  "send_page P target i =
     (case send P target (PageFile i) of
        None \<Rightarrow> (Inr (), [Send target (PageFile i) None])
      | Some e \<Rightarrow>
          (case e of
             HTTPException code retry_after \<Rightarrow>
               if code = 429 then
                 then_run (Inr (), [Send target (PageFile i) (Some e), Cooldown retry_after])
                   (\<lambda>_. call (Send target (PageFile i)) (resend P target (PageFile i)))
               else (Inl e, [Send target (PageFile i) (Some e)])
           | _ \<Rightarrow> (Inl e, [Send target (PageFile i) (Some e)])))"

text \<open>
  \<^verbatim>\<open>for i, page in enumerate(doc, start=1)\<close>, from page \<open>i\<close> on.
\<close>

fun upload_pages :: "platform \<Rightarrow> chan \<Rightarrow> bool \<Rightarrow> nat \<Rightarrow> nat \<Rightarrow> pdf_page list \<Rightarrow> unit run" where
  "upload_pages P target use_thread start_idx i [] = return ()"
| "upload_pages P target use_thread start_idx i (page # rest) =
     (if i \<le> start_idx \<and> use_thread then
        upload_pages P target use_thread start_idx (i + 1) rest
      else
        (case page of
           Fails \<Rightarrow> (Inl (Exception ''page''), [])
         | Renders \<Rightarrow>
             then_run (send_page P target i)
               (\<lambda>_. upload_pages P target use_thread start_idx (i + 1) rest)))"

definition convert_and_upload_pdf :: "platform \<Rightarrow> pdf \<Rightarrow> chan \<Rightarrow> bool \<Rightarrow> bool \<times> event list" where
  "convert_and_upload_pdf P pdf_bytes target use_thread =
     (case pdf_bytes of
        None \<Rightarrow> (False, [])
      | Some doc \<Rightarrow>
          let start_idx = (if use_thread \<and> is_Thread target then 1 else 0)
          in (case upload_pages P target use_thread start_idx 1 doc of
                (Inl e, evs) \<Rightarrow> (False, evs)
              | (Inr _, evs) \<Rightarrow> (True, evs)))"

text \<open>
  \<^verbatim>\<open>asyncio.wait_for(coroutine, timeout=300)\<close>. The coroutine is cancelled at one of its
  calls or not at all: \<open>cancelled_after = Some n\<close> says that the time is up when \<open>n\<close> of its
  calls have returned and a further one is pending.
\<close>

definition wait_for :: "nat option \<Rightarrow> bool \<times> event list \<Rightarrow> bool run" where
  "wait_for cancelled_after r =
     (case cancelled_after of
        None \<Rightarrow> (Inr (fst r), snd r)
      | Some n \<Rightarrow>
          if n < length (snd r) then (Inl TimeoutError, take n (snd r))
          else (Inr (fst r), snd r))"

definition get_first_page :: "pdf \<Rightarrow> bool" where
  "get_first_page pdf_bytes =
     (case pdf_bytes of
        None \<Rightarrow> False
      | Some [] \<Rightarrow> False
      | Some (Fails # _) \<Rightarrow> False
      | Some (Renders # _) \<Rightarrow> True)"

definition safe_edit_processing_msg :: "platform \<Rightarrow> message \<Rightarrow> content \<Rightarrow> unit run" where
  "safe_edit_processing_msg P m c =
     then_run (Inr (), [Pause])
       (\<lambda>_. try_except (call (EditStatus c) (edit P c))
          (\<lambda>e. call (Send (channel m) (TextItem c)) (send P (channel m) (TextItem c))))"

definition pdf_fallback :: content where
  "pdf_fallback =
     [WarningSign, Lit '' Could not create thread. Posted PDF in current channel instead.'']"

text \<open>
  The choice of the target in \<^verbatim>\<open>process_pdf\<close>, with the final message. \<open>creator\<close> is the
  call \<^verbatim>\<open>self.create_thread_with_retry(thread_name)\<close>, which the source wraps in a
  \<^verbatim>\<open>try\<close> of its own.
\<close>

definition pdf_target ::
  "(string \<Rightarrow> chan option run) \<Rightarrow> message \<Rightarrow> attachment \<Rightarrow> bool \<Rightarrow> (chan \<times> content option) \<times> event list" where
  "pdf_target creator m att use_thread =
     (if use_thread then
        (case creator (truncate_thread_name (filename att)) of
           (Inr None, evs) \<Rightarrow> ((channel m, Some pdf_fallback), evs)
         | (Inr (Some t), evs) \<Rightarrow> ((t, Some [MentionOf t]), evs)
         | (Inl e, evs) \<Rightarrow> ((channel m, Some pdf_fallback), evs))
      else ((channel m, None), []))"

text \<open>
  The three handlers of the outer \<^verbatim>\<open>try\<close> of \<^verbatim>\<open>process_pdf\<close>. \<open>target\<close> is \<open>None\<close> when
  the exception came before the variable was assigned.
\<close>

definition pdf_failed :: "platform \<Rightarrow> message \<Rightarrow> bool \<Rightarrow> chan option \<Rightarrow> exn \<Rightarrow> unit run" where
  "pdf_failed P m use_thread target e =
     (if e = Forbidden then
        safe_edit_processing_msg P m [WarningSign, Lit '' Permission error: '', StrOf e]
      else if e = TimeoutError then
        safe_edit_processing_msg P m [CrossMark, Lit '' PDF processing timed out after 5 minutes.'']
      else
        then_run (safe_edit_processing_msg P m [CrossMark, Lit '' Error processing PDF: '', StrOf e])
          (\<lambda>_. case target of
                  None \<Rightarrow> return ()
                | Some t \<Rightarrow>
                    if use_thread \<and> is_Thread t then
                      try_except (call (DeleteThread t) (delete_thread P t)) (\<lambda>e. return ())
                    else return ()))"

text \<open>What \<^verbatim>\<open>process_pdf\<close> does once the target is chosen.\<close>

definition pdf_deliver ::
  "platform \<Rightarrow> nat option \<Rightarrow> message \<Rightarrow> pdf \<Rightarrow> chan \<Rightarrow> content option \<Rightarrow> bool \<Rightarrow> unit run" where
  "pdf_deliver P cancelled_after m pdf_bytes target final_message use_thread =
     then_run
       (if use_thread \<and> is_Thread target \<and> target \<noteq> channel m \<and> get_first_page pdf_bytes
        then call (Send target (PageFile 1)) (send P target (PageFile 1))
        else return ())
       (\<lambda>_. then_run
          (then_run
             (wait_for cancelled_after (convert_and_upload_pdf P pdf_bytes target use_thread))
             (\<lambda>success.
                if \<not> success then (Inl (ValueError ''Failed to convert/upload PDF''), [])
                else return ()))
          (\<lambda>_. then_run (Inr (), [Pause])
             (\<lambda>_. then_run
                (try_except
                   (case final_message of
                      Some c \<Rightarrow> call (EditStatus c) (edit P c)
                    | None \<Rightarrow> call DeleteStatus (delete_status P))
                   (\<lambda>e. if e = NotFound then
                          (case final_message of
                             Some c \<Rightarrow>
                               call (Send (channel m) (TextItem c))
                                 (send P (channel m) (TextItem c))
                           | None \<Rightarrow> return ())
                        else (Inl e, [])))
                (\<lambda>_. try_except (call DeleteSource (delete_source P)) (\<lambda>e. return ())))))"

text \<open>
  \<^verbatim>\<open>process_pdf\<close>: \<open>read\<close> is what \<^verbatim>\<open>attachment.read()\<close> gives, \<open>processed\<close> the set
  \<^verbatim>\<open>_processed_pdf_messages\<close>, from which the \<^verbatim>\<open>finally\<close> clause takes the message.
\<close>

definition process_pdf ::
  "platform \<Rightarrow> (exn + pdf) \<Rightarrow> nat option \<Rightarrow> (string \<Rightarrow> chan option run) \<Rightarrow> message \<Rightarrow> attachment \<Rightarrow>
   nat set \<Rightarrow> bool \<Rightarrow> unit run \<times> nat set" where
  "process_pdf P read cancelled_after creator m att processed use_thread =
     (let converting = [Lit ''Converting PDF to images...''];
          started =
            then_run (call (EditStatus converting) (edit P converting))
              (\<lambda>_. case read of
                      Inl e \<Rightarrow> (Inl e, [ReadAttachment (Some e)])
                    | Inr pdf_bytes \<Rightarrow> (Inr pdf_bytes, [ReadAttachment None]))
      in (case started of
            (Inl e, evs) \<Rightarrow>
              (case pdf_failed P m use_thread None e of (r, evs') \<Rightarrow> (r, evs @ evs'))
          | (Inr pdf_bytes, evs) \<Rightarrow>
              (case pdf_target creator m att use_thread of
                 ((target, final_message), evs') \<Rightarrow>
                   (case try_except
                           (pdf_deliver P cancelled_after m pdf_bytes target final_message use_thread)
                           (pdf_failed P m use_thread (Some target)) of
                      (r, evs'') \<Rightarrow> (r, evs @ evs' @ evs''))),
          processed - {message_id m}))"

section \<open>The DOCX workflow\<close>

text \<open>
  \<^verbatim>\<open>post_images\<close>: in a thread the first image goes out on its own and the loop starts at the
  second; every exception is raised again as a plain \<^verbatim>\<open>Exception\<close>. \<open>post_rest\<close> is the loop
  \<^verbatim>\<open>for i, img in enumerate(images[start_idx:], start_idx + 1)\<close>, with the number of images
  still to post.
\<close>

fun post_rest :: "platform \<Rightarrow> chan \<Rightarrow> nat \<Rightarrow> nat \<Rightarrow> unit run" where
  "post_rest P target i 0 = return ()"
| "post_rest P target i (Suc n) =
     then_run (call (Send target (PageFile i)) (send P target (PageFile i)))
       (\<lambda>_. then_run (Inr (), [Pause]) (\<lambda>_. post_rest P target (i + 1) n))"

definition post_images :: "platform \<Rightarrow> chan \<Rightarrow> nat \<Rightarrow> bool \<Rightarrow> unit run" where
  "post_images P target images use_thread =
     try_except
       (let start_idx = (if use_thread \<and> is_Thread target then 1 else 0)
        in then_run
             (if use_thread \<and> is_Thread target \<and> images \<noteq> 0
              then call (Send target (PageFile 1)) (send P target (PageFile 1))
              else return ())
             (\<lambda>_. post_rest P target (start_idx + 1) (images - start_idx)))
       (\<lambda>e. (Inl (Exception ''Error posting images''), []))"

definition docx_fallback :: content where
  "docx_fallback =
     [WarningSign, Lit '' Could not create thread. Posted DOCX in current channel instead.'']"

definition docx_target ::
  "(string \<Rightarrow> chan option run) \<Rightarrow> message \<Rightarrow> attachment \<Rightarrow> bool \<Rightarrow> (chan \<times> content option) \<times> event list" where
  "docx_target creator m att use_thread =
     (if use_thread then
        (case creator (truncate_thread_name (filename att)) of
           (Inr None, evs) \<Rightarrow> ((channel m, Some docx_fallback), evs)
         | (Inr (Some t), evs) \<Rightarrow> ((t, Some [MentionOf t]), evs)
         | (Inl e, evs) \<Rightarrow> ((channel m, Some docx_fallback), evs))
      else ((channel m, None), []))"

text \<open>
  The two handlers of \<^verbatim>\<open>process_docx\<close>. They edit the status message directly; an
  exception of that edit leaves the method.
\<close>

definition docx_failed :: "platform \<Rightarrow> bool \<Rightarrow> chan option \<Rightarrow> exn \<Rightarrow> unit run" where
  "docx_failed P use_thread target e =
     (if e = Forbidden then
        call (EditStatus [WarningSign, Lit '' Permission error: '', StrOf e])
          (edit P [WarningSign, Lit '' Permission error: '', StrOf e])
      else
        then_run
          (call (EditStatus [CrossMark, Lit '' Error processing DOCX: '', StrOf e])
             (edit P [CrossMark, Lit '' Error processing DOCX: '', StrOf e]))
          (\<lambda>_. case target of
                  None \<Rightarrow> return ()
                | Some t \<Rightarrow>
                    if use_thread \<and> is_Thread t then
                      try_except (call (DeleteThread t) (delete_thread P t)) (\<lambda>e. return ())
                    else return ()))"

definition docx_deliver ::
  "platform \<Rightarrow> nat \<Rightarrow> chan \<Rightarrow> content option \<Rightarrow> bool \<Rightarrow> unit run" where
  "docx_deliver P images target final_message use_thread =
     then_run (post_images P target images use_thread)
       (\<lambda>_. then_run
          (case final_message of
             Some c \<Rightarrow> call (EditStatus c) (edit P c)
           | None \<Rightarrow> call DeleteStatus (delete_status P))
          (\<lambda>_. try_except (call DeleteSource (delete_source P)) (\<lambda>e. return ())))"

text \<open>
  \<^verbatim>\<open>process_docx\<close>: \<open>read\<close> is how \<^verbatim>\<open>attachment.read()\<close> ends, \<open>converted\<close> what
  \<^verbatim>\<open>convert_docx_to_images\<close> returns for the bytes, the number of images or \<^verbatim>\<open>None\<close>. The
  document is converted before the target is chosen.
\<close>

definition process_docx ::
  "platform \<Rightarrow> exn option \<Rightarrow> nat option \<Rightarrow> (string \<Rightarrow> chan option run) \<Rightarrow> message \<Rightarrow> attachment \<Rightarrow>
   bool \<Rightarrow> unit run" where
  "process_docx P read converted creator m att use_thread =
     (let converting = [Lit ''Converting DOCX to images...''];
          started =
            then_run (call (EditStatus converting) (edit P converting))
              (\<lambda>_. then_run (call ReadAttachment read)
                 (\<lambda>_. case converted of
                         None \<Rightarrow>
                           (Inl (ValueError ''Failed to convert DOCX to images or document is empty''), [])
                       | Some images \<Rightarrow>
                           if images = 0 then
                             (Inl (ValueError ''Failed to convert DOCX to images or document is empty''), [])
                           else return images))
      in (case started of
            (Inl e, evs) \<Rightarrow>
              (case docx_failed P use_thread None e of (r, evs') \<Rightarrow> (r, evs @ evs'))
          | (Inr images, evs) \<Rightarrow>
              (case docx_target creator m att use_thread of
                 ((target, final_message), evs') \<Rightarrow>
                   (case try_except (docx_deliver P images target final_message use_thread)
                           (docx_failed P use_thread (Some target)) of
                      (r, evs'') \<Rightarrow> (r, evs @ evs' @ evs'')))))"

section \<open>The video workflow\<close>

text \<open>
  The name of the posted file:
  \<^verbatim>\<open>filename.rsplit('.', 1)[0] + '.mp4' if '.' in filename else filename + '.mp4'\<close>.
\<close>

definition mp4_name :: "string \<Rightarrow> string" where
  "mp4_name name =
     (if CHR ''.'' \<in> set name
      then rev (tl (dropWhile (\<lambda>c. c \<noteq> CHR ''.'') (rev name))) @ ''.mp4''
      else name @ ''.mp4'')"

text \<open>
  What the workflow meets outside the platform: how the download of the attachment and the
  encoder end, whether the encoded file is within \<^verbatim>\<open>DISCORD_SIZE_LIMIT_MB\<close>, and how the
  first part of \<^verbatim>\<open>handle_large_video\<close> ends, from the probe of the duration to the last
  segment file: with the number of segments, or with an exception (of the probe, of the file
  system, or of one of the status edits made on the way, which the trace leaves out).
\<close>

record video_world =
  download :: "exn option"
  encoder :: "exn option"
  within_limit :: bool
  segmenting :: "exn + nat"

definition video_fallback :: content where
  "video_fallback =
     [WarningSign, Lit '' Could not create thread. Posting video in channel instead...'']"

definition segment :: "string \<Rightarrow> nat \<Rightarrow> nat \<Rightarrow> item" where
  "segment file_name part n =
     FileWithText (fst (splitext ''/'' file_name) @ ''_part'')
       [Lit ''Video part '', Num part, Lit '' of '', Num n]"

text \<open>
  The upload loop of \<^verbatim>\<open>handle_large_video\<close>,
  \<^verbatim>\<open>for i, segment_file in enumerate(segment_files)\<close>, from index \<open>i\<close> on with the number
  of segments still to upload; its value is \<^verbatim>\<open>successful_uploads\<close>. An
  \<^verbatim>\<open>HTTPException\<close> of a send is answered by a notice in the target, and the loop goes on.
\<close>

fun upload_segments ::
  "platform \<Rightarrow> chan \<Rightarrow> string \<Rightarrow> nat \<Rightarrow> nat \<Rightarrow> nat \<Rightarrow> nat \<Rightarrow> nat run" where
  "upload_segments P target file_name n i 0 successful_uploads = return successful_uploads"
| "upload_segments P target file_name n i (Suc left) successful_uploads =
     (let uploading = [Lit ''Uploading segment '', Num (i + 1), Lit '' of '', Num n];
          failed = TextItem [WarningSign, Lit '' Failed to upload segment '', Num (i + 1),
                             Lit '' of '', Num n]
      in then_run (call (EditStatus uploading) (edit P uploading))
           (\<lambda>_. then_run
              (case send P target (segment file_name (i + 1) n) of
                 None \<Rightarrow>
                   (Inr (successful_uploads + 1),
                    [Send target (segment file_name (i + 1) n) None])
               | Some e \<Rightarrow>
                   if is_HTTPException e then
                     then_run (Inr (), [Send target (segment file_name (i + 1) n) (Some e)])
                       (\<lambda>_. then_run (call (Send target failed) (send P target failed))
                          (\<lambda>_. return successful_uploads))
                   else (Inl e, [Send target (segment file_name (i + 1) n) (Some e)]))
              (\<lambda>uploads. upload_segments P target file_name n (i + 1) left uploads)))"

definition segments_warning :: item where
  "segments_warning =
     TextItem [WarningSign, Lit '' **WARNING**: Do not download or share these video segments outside the server.'']"

definition handle_large_video ::
  "platform \<Rightarrow> video_world \<Rightarrow> string \<Rightarrow> chan \<Rightarrow> bool \<Rightarrow> chan option \<Rightarrow> unit run" where
  "handle_large_video P vw file_name target use_thread thread_ref =
     try_except
       (let too_large = [Lit ''Video too large for Discord. Creating shorter clips...'']
        in then_run (call (EditStatus too_large) (edit P too_large))
             (\<lambda>_. then_run
                (case segmenting vw of Inl e \<Rightarrow> (Inl e, []) | Inr n \<Rightarrow> return n)
                (\<lambda>n. then_run (upload_segments P target file_name n 0 n 0)
                   (\<lambda>successful_uploads. then_run
                      (call (Send target segments_warning) (send P target segments_warning))
                      (\<lambda>_. then_run
                         (case thread_ref of
                            Some t \<Rightarrow>
                              if use_thread then
                                (let c = (if successful_uploads = n then [MentionOf t]
                                          else [MentionOf t, Lit '' (Uploaded '',
                                                Num successful_uploads, Lit '' of '', Num n,
                                                Lit '' segments)''])
                                 in call (EditStatus c) (edit P c))
                              else call DeleteStatus (delete_status P)
                          | None \<Rightarrow> call DeleteStatus (delete_status P))
                         (\<lambda>_. try_except (call DeleteSource (delete_source P))
                                  (\<lambda>e. return ())))))))
       (\<lambda>e. call (EditStatus [CrossMark, Lit '' Could not process large video: '', StrOf e])
               (edit P [CrossMark, Lit '' Could not process large video: '', StrOf e]))"

text \<open>
  The choice of the target in \<^verbatim>\<open>process_video\<close>. Its value is the target, or the exception
  of the edit in the handler of the inner \<^verbatim>\<open>try\<close>; the last component is \<^verbatim>\<open>thread_ref\<close>
  as it stands then.
\<close>

definition video_target ::
  "platform \<Rightarrow> (string \<Rightarrow> chan option run) \<Rightarrow> message \<Rightarrow> string \<Rightarrow> bool \<Rightarrow> chan run \<times> chan option" where
  "video_target P creator m file_name use_thread =
     (if use_thread then
        (let warn = then_run (call (EditStatus video_fallback) (edit P video_fallback))
                      (\<lambda>_. return (channel m));
             created = [Lit ''Created thread. Preparing video...'']
         in case creator (truncate_thread_name file_name) of
              (Inl e, evs) \<Rightarrow> (then_run (Inr (), evs) (\<lambda>_. warn), None)
            | (Inr None, evs) \<Rightarrow>
                (then_run (Inr (), evs) (\<lambda>_. try_except warn (\<lambda>e. warn)), None)
            | (Inr (Some t), evs) \<Rightarrow>
                (then_run (Inr (), evs)
                   (\<lambda>_. try_except
                      (then_run (call (EditStatus created) (edit P created)) (\<lambda>_. return t))
                      (\<lambda>e. warn)),
                 Some t))
      else (return (channel m), None))"

definition video_warning :: item where
  "video_warning =
     TextItem [WarningSign, Lit '' **WARNING**: Do not download or share this video outside the server.'']"

definition video_deliver ::
  "platform \<Rightarrow> video_world \<Rightarrow> string \<Rightarrow> chan \<Rightarrow> bool \<Rightarrow> chan option \<Rightarrow> unit run" where
  "video_deliver P vw file_name target use_thread thread_ref =
     (if within_limit vw then
        try_except
          (let uploading = [Lit ''Uploading video'']
           in then_run (call (EditStatus uploading) (edit P uploading))
                (\<lambda>_. then_run
                   (call (Send target (FileItem file_name)) (send P target (FileItem file_name)))
                   (\<lambda>_. then_run (call (Send target video_warning) (send P target video_warning))
                      (\<lambda>_. then_run
                         (try_except (call DeleteSource (delete_source P))
                            (\<lambda>e. if e = Forbidden then return () else (Inl e, [])))
                         (\<lambda>_. case thread_ref of
                                 Some t \<Rightarrow>
                                   if use_thread then call (EditStatus [MentionOf t]) (edit P [MentionOf t])
                                   else call DeleteStatus (delete_status P)
                               | None \<Rightarrow> call DeleteStatus (delete_status P))))))
          (\<lambda>e. if is_HTTPException e
                then handle_large_video P vw file_name target use_thread thread_ref
                else (Inl e, []))
      else handle_large_video P vw file_name target use_thread thread_ref)"

definition video_failed :: "platform \<Rightarrow> bool \<Rightarrow> chan option \<Rightarrow> exn \<Rightarrow> unit run" where
  "video_failed P use_thread thread_ref e =
     then_run
       (call (EditStatus [CrossMark, Lit '' Error processing video: '', StrOf e])
          (edit P [CrossMark, Lit '' Error processing video: '', StrOf e]))
       (\<lambda>_. case thread_ref of
               Some t \<Rightarrow>
                 if use_thread then
                   try_except (call (DeleteThread t) (delete_thread P t)) (\<lambda>e. return ())
                 else return ()
             | None \<Rightarrow> return ())"

text \<open>
  \<^verbatim>\<open>process_video\<close> of \<^verbatim>\<open>LocationOptionsView\<close>. The encoder runs before the target is
  chosen; an exception of the encoder is raised again as a plain \<^verbatim>\<open>Exception\<close>.
\<close>

definition process_video ::
  "platform \<Rightarrow> video_world \<Rightarrow> (string \<Rightarrow> chan option run) \<Rightarrow> message \<Rightarrow> attachment \<Rightarrow> bool \<Rightarrow> unit run" where
  "process_video P vw creator m att use_thread =
     (let file_name = mp4_name (filename att);
          processing = [Lit ''Processing '', Lit (filename att), Lit ''... This may take a few minutes.''];
          working = [Lit ''Processing video... This may take a few minutes.''];
          prepared = [Lit ''Video processed. Preparing to post''];
          encoded =
            then_run (call (EditStatus processing) (edit P processing))
              (\<lambda>_. then_run (call ReadAttachment (download vw))
                 (\<lambda>_. then_run
                    (try_except
                       (then_run (call (EditStatus working) (edit P working))
                          (\<lambda>_. case encoder vw of
                                  Some e \<Rightarrow> (Inl e, [])
                                | None \<Rightarrow> return ()))
                       (\<lambda>e. (Inl (Exception ''Processing failed''), [])))
                    (\<lambda>_. call (EditStatus prepared) (edit P prepared))))
      in (case encoded of
            (Inl e, evs) \<Rightarrow>
              (case video_failed P use_thread None e of (r, evs') \<Rightarrow> (r, evs @ evs'))
          | (Inr _, evs) \<Rightarrow>
              (case video_target P creator m file_name use_thread of
                 ((Inl e, evs'), thread_ref) \<Rightarrow>
                   (case video_failed P use_thread thread_ref e of
                      (r, evs'') \<Rightarrow> (r, evs @ evs' @ evs''))
               | ((Inr target, evs'), thread_ref) \<Rightarrow>
                   (case try_except (video_deliver P vw file_name target use_thread thread_ref)
                           (video_failed P use_thread thread_ref) of
                      (r, evs'') \<Rightarrow> (r, evs @ evs' @ evs'')))))"

text \<open>The creator the views use: the retry loop, which returns and never raises.\<close>

definition retrying_creator :: "(nat \<Rightarrow> exn + nat) \<Rightarrow> string \<Rightarrow> chan option run" where
  "retrying_creator create thread_name =
     (case create_thread_with_retry create thread_name of (r, evs) \<Rightarrow> (Inr r, evs))"

text \<open>The names the creation attempts of a trace were made with.\<close>

fun created_names :: "event list \<Rightarrow> string list" where
  "created_names [] = []"
| "created_names (CreateThread attempt thread_name outcome # evs) = thread_name # created_names evs"
| "created_names (_ # evs) = created_names evs"

text \<open>The URLs the metadata fetch was called with in a trace.\<close>

fun fetched :: "event list \<Rightarrow> string list" where
  "fetched [] = []"
| "fetched (FetchMetadata u # evs) = u # fetched evs"
| "fetched (_ # evs) = fetched evs"

text \<open>
  The text an item carries, and what it means for an event to stay in a channel without a
  thread mention: a send goes to that channel, and neither a sent text nor a status text
  mentions a thread.
\<close>

fun item_content :: "item \<Rightarrow> content" where
  "item_content (TextItem c) = c"
| "item_content (FileWithText name c) = c"
| "item_content _ = []"

fun stays_in :: "chan \<Rightarrow> event \<Rightarrow> bool" where
  "stays_in ch (Send target i outcome) = (target = ch \<and> \<not> has_mention (item_content i))"
| "stays_in ch (EditStatus c outcome) = (\<not> has_mention c)"
| "stays_in ch _ = True"

chapter \<open>Properties\<close>

section \<open>Properties of the entry points\<close>

text \<open>
  C10. The image-batch handler goes on only with at least two attachments whose extension is
  one of the supported image extensions. With fewer than two (none, or exactly one image) it
  returns \<^verbatim>\<open>False\<close> and has made no call at all: no prompt, no message. When it returns
  \<^verbatim>\<open>True\<close> it has counted at least two images.
\<close>

theorem handle_image_batch_needs_two_images:
  "(length (image_attachments separators m) < 2 \<longrightarrow>
      handle_image_batch separators member calls m = (Inr False, [])) \<and>
   (fst (handle_image_batch separators member calls m) = Inr True \<longrightarrow>
      2 \<le> length (image_attachments separators m))"
  by (auto simp add: handle_image_batch_def Let_def split: option.splits)

text \<open>A message with one picture and one text file, and a message with two pictures.\<close>

theorem handle_image_batch_needs_two_images_witness:
  "length (image_attachments ''/''
      \<lparr>message_id = 7, author_is_bot = False, in_guild = True,
       attachments = [\<lparr>filename = ''photo.PNG'', size_bytes = 1000, attachment_id = 1\<rparr>,
                      \<lparr>filename = ''notes.txt'', size_bytes = 10, attachment_id = 2\<rparr>],
       content = [], channel = TextChannel 1\<rparr>) < 2 \<and>
   handle_image_batch ''/'' None \<lparr>notice = None, prompt = None, view = None\<rparr>
      \<lparr>message_id = 7, author_is_bot = False, in_guild = True,
       attachments = [\<lparr>filename = ''photo.PNG'', size_bytes = 1000, attachment_id = 1\<rparr>,
                      \<lparr>filename = ''notes.txt'', size_bytes = 10, attachment_id = 2\<rparr>],
       content = [], channel = TextChannel 1\<rparr> = (Inr False, []) \<and>
   fst (handle_image_batch ''/'' None \<lparr>notice = None, prompt = None, view = None\<rparr>
      \<lparr>message_id = 8, author_is_bot = False, in_guild = True,
       attachments = [\<lparr>filename = ''a.png'', size_bytes = 1000, attachment_id = 1\<rparr>,
                      \<lparr>filename = ''b.jpg'', size_bytes = 10, attachment_id = 2\<rparr>],
       content = [], channel = TextChannel 1\<rparr>) = Inr True \<and>
   2 \<le> length (image_attachments ''/''
      \<lparr>message_id = 8, author_is_bot = False, in_guild = True,
       attachments = [\<lparr>filename = ''a.png'', size_bytes = 1000, attachment_id = 1\<rparr>,
                      \<lparr>filename = ''b.jpg'', size_bytes = 10, attachment_id = 2\<rparr>],
       content = [], channel = TextChannel 1\<rparr>)"
proof -
  let ?one = "\<lparr>message_id = 7, author_is_bot = False, in_guild = True,
       attachments = [\<lparr>filename = ''photo.PNG'', size_bytes = 1000, attachment_id = 1\<rparr>,
                      \<lparr>filename = ''notes.txt'', size_bytes = 10, attachment_id = 2\<rparr>],
       content = [], channel = TextChannel 1\<rparr>"
  let ?two = "\<lparr>message_id = 8, author_is_bot = False, in_guild = True,
       attachments = [\<lparr>filename = ''a.png'', size_bytes = 1000, attachment_id = 1\<rparr>,
                      \<lparr>filename = ''b.jpg'', size_bytes = 10, attachment_id = 2\<rparr>],
       content = [], channel = TextChannel 1\<rparr>"
  let ?api = "\<lparr>notice = None, prompt = None, view = None\<rparr>"
  have one: "length (image_attachments ''/'' ?one) < 2"
    by code_simp
  have two: "fst (handle_image_batch ''/'' None ?api ?two) = Inr True"
    by code_simp
  from one two
    handle_image_batch_needs_two_images [of "''/''" ?one None ?api]
    handle_image_batch_needs_two_images [of "''/''" ?two None ?api]
  show ?thesis by blast
qed

section \<open>Properties of thread creation with retry\<close>

lemma range_3: "[0..<3] = [0, 1, 2]"
  by (simp add: upt_rec)

text \<open>
  C2, as the code has it. Whatever the platform answers, the loop makes at most three
  creation attempts and returns a thread or \<^verbatim>\<open>None\<close> (the function is total and its
  result is an option: no exception leaves it). It waits 2 time units after a first permission
  failure and 4 after a second, and nothing after the third: three permission failures give
  \<^verbatim>\<open>None\<close> after the attempts 0, 1, 2 and the delays 2, 4. An exception other than a permission
  failure gives \<^verbatim>\<open>None\<close> at once, with no delay and no attempt after it.
\<close>

theorem create_thread_with_retry_bounded:
  "length (attempts (snd (create_thread_with_retry create n))) \<le> 3 \<and>
   backoff_delays (snd (create_thread_with_retry create n)) \<in> {[], [2], [2, 4]} \<and>
   (create 0 = Inl Forbidden \<and> create 1 = Inl Forbidden \<and> create 2 = Inl Forbidden \<longrightarrow>
      create_thread_with_retry create n =
        (None, [CreateThread 0 n (Inl Forbidden), Backoff 2,
                CreateThread 1 n (Inl Forbidden), Backoff 4,
                CreateThread 2 n (Inl Forbidden)])) \<and>
   (\<forall>e. e \<noteq> Forbidden \<and> create 0 = Inl e \<longrightarrow>
      create_thread_with_retry create n = (None, [CreateThread 0 n (Inl e)])) \<and>
   (\<forall>e. e \<noteq> Forbidden \<and> create 0 = Inl Forbidden \<and> create 1 = Inl e \<longrightarrow>
      create_thread_with_retry create n =
        (None, [CreateThread 0 n (Inl Forbidden), Backoff 2, CreateThread 1 n (Inl e)])) \<and>
   (\<forall>e. e \<noteq> Forbidden \<and> create 0 = Inl Forbidden \<and> create 1 = Inl Forbidden \<and>
        create 2 = Inl e \<longrightarrow>
      create_thread_with_retry create n =
        (None, [CreateThread 0 n (Inl Forbidden), Backoff 2,
                CreateThread 1 n (Inl Forbidden), Backoff 4, CreateThread 2 n (Inl e)]))"
proof -
  let ?r = "create_thread_with_retry create n"
  have bound: "length (attempts (snd ?r)) \<le> 3"
    by (simp add: create_thread_with_retry_def range_3 split: sum.splits prod.splits)
  have delays: "backoff_delays (snd ?r) \<in> {[], [2], [2, 4]}"
    by (simp add: create_thread_with_retry_def range_3 split: sum.splits prod.splits)
  have exhausted: "create 0 = Inl Forbidden \<and> create 1 = Inl Forbidden \<and> create 2 = Inl Forbidden \<longrightarrow>
      ?r = (None, [CreateThread 0 n (Inl Forbidden), Backoff 2,
                   CreateThread 1 n (Inl Forbidden), Backoff 4,
                   CreateThread 2 n (Inl Forbidden)])"
    by (simp add: create_thread_with_retry_def range_3)
  have other0: "\<forall>e. e \<noteq> Forbidden \<and> create 0 = Inl e \<longrightarrow>
      ?r = (None, [CreateThread 0 n (Inl e)])"
    by (simp add: create_thread_with_retry_def range_3)
  have other1: "\<forall>e. e \<noteq> Forbidden \<and> create 0 = Inl Forbidden \<and> create 1 = Inl e \<longrightarrow>
      ?r = (None, [CreateThread 0 n (Inl Forbidden), Backoff 2, CreateThread 1 n (Inl e)])"
    by (simp add: create_thread_with_retry_def range_3)
  have other2: "\<forall>e. e \<noteq> Forbidden \<and> create 0 = Inl Forbidden \<and> create 1 = Inl Forbidden \<and>
        create 2 = Inl e \<longrightarrow>
      ?r = (None, [CreateThread 0 n (Inl Forbidden), Backoff 2,
                   CreateThread 1 n (Inl Forbidden), Backoff 4, CreateThread 2 n (Inl e)])"
    by (simp add: create_thread_with_retry_def range_3)
  from bound delays exhausted other0 other1 other2 show ?thesis by blast
qed

text \<open>
  The theorem at two answers of the platform: three permission failures, and a permission
  failure followed by a server error.
\<close>

theorem create_thread_with_retry_bounded_witness:
  "create_thread_with_retry (\<lambda>attempt. Inl Forbidden) ''report.pdf'' =
     (None, [CreateThread 0 ''report.pdf'' (Inl Forbidden), Backoff 2,
             CreateThread 1 ''report.pdf'' (Inl Forbidden), Backoff 4,
             CreateThread 2 ''report.pdf'' (Inl Forbidden)]) \<and>
   create_thread_with_retry
       (\<lambda>attempt. if attempt = 0 then Inl Forbidden else Inl (HTTPException 50035 0)) ''report.pdf'' =
     (None, [CreateThread 0 ''report.pdf'' (Inl Forbidden), Backoff 2,
             CreateThread 1 ''report.pdf'' (Inl (HTTPException 50035 0))])"
  using create_thread_with_retry_bounded [of "\<lambda>attempt. Inl Forbidden" "''report.pdf''"]
        create_thread_with_retry_bounded
          [of "\<lambda>attempt. if attempt = 0 then Inl Forbidden else Inl (HTTPException 50035 0)"
              "''report.pdf''"]
  by simp

text \<open>
  C2 as the specification words it names three delays, 2, 4 and 8. When every attempt is refused
  the loop waits 2 and 4 only: after the third refusal it returns without waiting, so the value
  8 of \<^verbatim>\<open>retry_delay\<close> is never slept.
\<close>

theorem create_thread_with_retry_delays_counterexample:
  "backoff_delays (snd (create_thread_with_retry (\<lambda>attempt. Inl Forbidden) ''report.pdf'')) = [2, 4] \<and>
   backoff_delays (snd (create_thread_with_retry (\<lambda>attempt. Inl Forbidden) ''report.pdf'')) \<noteq> [2, 4, 8]"
  by (simp add: create_thread_with_retry_def range_3)


section \<open>Properties of the dispatcher\<close>

lemma invoked_append: "invoked (xs @ ys) = invoked xs @ invoked ys"
  by (induction xs rule: invoked.induct) simp_all

lemma invoked_image:
  "invoked (snd (handle_image_batch sp bm a m)) =
     (if fst (handle_image_batch sp bm a m) = Inr True then [ImageBatch] else [])"
  by (simp add: handle_image_batch_def Let_def lacks_def split: option.splits)

lemma invoked_pdf:
  "invoked (fst (snd (handle_pdf mx bm a pr m))) \<in> {[], [Pdf]} \<and>
   (fst (handle_pdf mx bm a pr m) \<noteq> Inr True \<longrightarrow>
      invoked (fst (snd (handle_pdf mx bm a pr m))) = [])"
  by (simp add: handle_pdf_def Let_def lacks_def split: option.splits list.splits)

lemma invoked_docx:
  "invoked (snd (handle_docx bm a m)) \<in> {[], [Docx]} \<and>
   (fst (handle_docx bm a m) \<noteq> Inr True \<longrightarrow> invoked (snd (handle_docx bm a m)) = [])"
  by (simp add: handle_docx_def Let_def lacks_def split: option.splits list.splits)

lemma invoked_mp4:
  "invoked (fst (snd (handle_mp4 a pf m))) \<in> {[], [Video]} \<and>
   (fst (handle_mp4 a pf m) \<noteq> Inr True \<longrightarrow> invoked (fst (snd (handle_mp4 a pf m))) = [])"
  by (simp add: handle_mp4_def Let_def split: option.splits list.splits)

lemma invoked_youtube:
  "invoked (snd (handle_youtube f g a m)) \<in> {[], [YouTube]} \<and>
   (fst (handle_youtube f g a m) \<noteq> Inr True \<longrightarrow> invoked (snd (handle_youtube f g a m)) = [])"
  by (simp add: handle_youtube_def then_run_def call_def return_def
      split: option.splits list.splits)

lemma invoked_referral_body:
  "invoked (snd (referral_body w a m u d)) \<in> {[], [Referral]}"
  by (simp add: referral_body_def then_run_def call_def return_def try_except_def Let_def
      split: option.splits sum.splits)

lemma invoked_try_except:
  "invoked (snd (try_except r h)) =
     invoked (snd r) @ (case fst r of Inl e \<Rightarrow> invoked (snd (h e)) | Inr a \<Rightarrow> [])"
  by (cases r) (simp add: try_except_def invoked_append split: sum.splits prod.splits)

lemma invoked_then_run:
  "invoked (snd (then_run r f)) =
     invoked (snd r) @ (case fst r of Inl e \<Rightarrow> [] | Inr a \<Rightarrow> invoked (snd (f a)))"
  by (cases r) (simp add: then_run_def invoked_append split: sum.splits prod.splits)

lemma invoked_referral:
  "invoked (snd (handle_referral f w a c m)) \<in> {[], [Referral]}"
proof -
  have body: "invoked (snd (referral_body w a m u d)) \<in> {[], [Referral]}" for u d
    by (rule invoked_referral_body)
  have handler: "invoked (snd (then_run (call (EditStatus x) (error_edit a)) (\<lambda>_. return False))) = []"
    for x
    by (simp add: then_run_def call_def return_def split: option.splits)
  have guarded: "invoked (snd (try_except (referral_body w a m u d)
       (\<lambda>e. then_run (call (EditStatus [CrossMark, Lit '' Error processing referral link: '', StrOf e])
                (error_edit a)) (\<lambda>_. return False)))) \<in> {[], [Referral]}" for u d
    using body [of u d] by (simp add: invoked_try_except handler split: sum.splits)
  show ?thesis
    using guarded
    by (simp add: handle_referral_def invoked_then_run call_def
        split: option.splits sum.splits list.splits)
qed

lemma attachment_handlers_invoke:
  "invoked (snd (fst (attachment_handlers w st m))) \<in> {[], [ImageBatch], [Pdf], [Docx]} \<and>
   (invoked (snd (fst (attachment_handlers w st m))) = [Pdf] \<longrightarrow>
      fst (handle_image_batch (seps w) (bot_member w) (api w ImageBatch) m) = Inr False) \<and>
   (invoked (snd (fst (attachment_handlers w st m))) = [Docx] \<longrightarrow>
      fst (handle_image_batch (seps w) (bot_member w) (api w ImageBatch) m) = Inr False \<and>
      fst (handle_pdf (max_file_size w) (bot_member w) (api w Pdf) (processed_pdf_messages st) m)
        = Inr False) \<and>
   processed_files (snd (attachment_handlers w st m)) = processed_files st"
proof -
  obtain r1 e1 where i: "handle_image_batch (seps w) (bot_member w) (api w ImageBatch) m = (r1, e1)"
    by (cases "handle_image_batch (seps w) (bot_member w) (api w ImageBatch) m")
  obtain r2 e2 p2 where
    p: "handle_pdf (max_file_size w) (bot_member w) (api w Pdf) (processed_pdf_messages st) m
          = (r2, e2, p2)"
    by (cases "handle_pdf (max_file_size w) (bot_member w) (api w Pdf) (processed_pdf_messages st) m")
  obtain r3 e3 where d: "handle_docx (bot_member w) (api w Docx) m = (r3, e3)"
    by (cases "handle_docx (bot_member w) (api w Docx) m")
  have i': "invoked e1 = (if r1 = Inr True then [ImageBatch] else [])"
    using invoked_image [of "seps w" "bot_member w" "api w ImageBatch" m] by (simp add: i)
  have p': "invoked e2 \<in> {[], [Pdf]} \<and> (r2 \<noteq> Inr True \<longrightarrow> invoked e2 = [])"
    using invoked_pdf [of "max_file_size w" "bot_member w" "api w Pdf" "processed_pdf_messages st" m]
    by (simp add: p)
  have d': "invoked e3 \<in> {[], [Docx]} \<and> (r3 \<noteq> Inr True \<longrightarrow> invoked e3 = [])"
    using invoked_docx [of "bot_member w" "api w Docx" m] by (simp add: d)
  show ?thesis
    using i' p' d'
    by (auto simp add: attachment_handlers_def i p d invoked_append split: sum.splits if_splits)
qed

lemma text_handlers_invoke:
  "invoked (snd (fst (text_handlers w st m))) \<in> {[], [Video], [YouTube], [Referral]} \<and>
   (invoked (snd (fst (text_handlers w st m))) = [YouTube] \<longrightarrow>
      fst (handle_mp4 (api w Video) (processed_files st) m) = Inr False) \<and>
   (invoked (snd (fst (text_handlers w st m))) = [Referral] \<longrightarrow>
      fst (handle_mp4 (api w Video) (processed_files st) m) = Inr False \<and>
      fst (handle_youtube (findall_youtube w) (get_video_details w) (api w YouTube) m) = Inr False)"
proof -
  obtain r1 e1 p1 where v: "handle_mp4 (api w Video) (processed_files st) m = (r1, e1, p1)"
    by (cases "handle_mp4 (api w Video) (processed_files st) m")
  obtain r2 e2 where
    y: "handle_youtube (findall_youtube w) (get_video_details w) (api w YouTube) m = (r2, e2)"
    by (cases "handle_youtube (findall_youtube w) (get_video_details w) (api w YouTube) m")
  obtain r3 e3 where
    r: "handle_referral (findall_url w) (the_web w) (referral_api w) (the (REFERRAL_CHANNEL_ID w)) m
          = (r3, e3)"
    by (cases "handle_referral (findall_url w) (the_web w) (referral_api w)
                 (the (REFERRAL_CHANNEL_ID w)) m")
  have v': "invoked e1 \<in> {[], [Video]} \<and> (r1 \<noteq> Inr True \<longrightarrow> invoked e1 = [])"
    using invoked_mp4 [of "api w Video" "processed_files st" m] by (simp add: v)
  have y': "invoked e2 \<in> {[], [YouTube]} \<and> (r2 \<noteq> Inr True \<longrightarrow> invoked e2 = [])"
    using invoked_youtube [of "findall_youtube w" "get_video_details w" "api w YouTube" m]
    by (simp add: y)
  have r': "invoked e3 \<in> {[], [Referral]}"
    using invoked_referral [of "findall_url w" "the_web w" "referral_api w"
        "the (REFERRAL_CHANNEL_ID w)" m]
    by (simp add: r)
  show ?thesis
    using v' y' r'
    by (auto simp add: text_handlers_def v y r invoked_append split: sum.splits if_splits)
qed

lemma kinds_split:
  assumes "x \<in> {[], [ImageBatch], [Pdf], [Docx]}" and "y \<in> {[], [Video], [YouTube], [Referral]}"
  shows "x @ y = filter (\<lambda>k. k \<in> set attachment_kinds) (x @ y) @
                 filter (\<lambda>k. k \<in> set text_kinds) (x @ y)"
    and "length (filter (\<lambda>k. k \<in> set attachment_kinds) (x @ y)) \<le> 1"
    and "length (filter (\<lambda>k. k \<in> set text_kinds) (x @ y)) \<le> 1"
    and "Pdf \<in> set (x @ y) \<longleftrightarrow> x = [Pdf]"
    and "Docx \<in> set (x @ y) \<longleftrightarrow> x = [Docx]"
    and "YouTube \<in> set (x @ y) \<longleftrightarrow> y = [YouTube]"
    and "Referral \<in> set (x @ y) \<longleftrightarrow> y = [Referral]"
  using assms by (auto simp add: attachment_kinds_def text_kinds_def)

text \<open>
  C1, as the code has it. A message is looked at once, by two statements one after the other.
  The first asks the attachment handlers in the order image batch, PDF, DOCX, each only when
  the one before returned \<^verbatim>\<open>False\<close>; the second asks, for every message, the video handler,
  then the YouTube handler, then the referral handler, in the same way. Each statement starts at
  most one workflow, so a message starts at most two, one of each group, the attachment one
  first.
\<close>

theorem on_message_one_workflow_per_group:
  "dispatched w st m =
     filter (\<lambda>k. k \<in> set attachment_kinds) (dispatched w st m) @
     filter (\<lambda>k. k \<in> set text_kinds) (dispatched w st m) \<and>
   length (filter (\<lambda>k. k \<in> set attachment_kinds) (dispatched w st m)) \<le> 1 \<and>
   length (filter (\<lambda>k. k \<in> set text_kinds) (dispatched w st m)) \<le> 1 \<and>
   (Pdf \<in> set (dispatched w st m) \<longrightarrow>
      fst (handle_image_batch (seps w) (bot_member w) (api w ImageBatch) m) = Inr False) \<and>
   (Docx \<in> set (dispatched w st m) \<longrightarrow>
      fst (handle_image_batch (seps w) (bot_member w) (api w ImageBatch) m) = Inr False \<and>
      fst (handle_pdf (max_file_size w) (bot_member w) (api w Pdf) (processed_pdf_messages st) m)
        = Inr False) \<and>
   (YouTube \<in> set (dispatched w st m) \<longrightarrow>
      fst (handle_mp4 (api w Video) (processed_files st) m) = Inr False) \<and>
   (Referral \<in> set (dispatched w st m) \<longrightarrow>
      fst (handle_mp4 (api w Video) (processed_files st) m) = Inr False \<and>
      fst (handle_youtube (findall_youtube w) (get_video_details w) (api w YouTube) m) = Inr False)"
proof (cases "author_is_bot m")
  case True
  then show ?thesis by (simp add: dispatched_def on_message_def)
next
  case False
  obtain r1 e1 s1 where a: "attachment_handlers w st m = ((r1, e1), s1)"
    by (cases "attachment_handlers w st m") auto
  obtain r2 e2 s2 where t: "text_handlers w s1 m = ((r2, e2), s2)"
    by (cases "text_handlers w s1 m") auto
  have a': "invoked e1 \<in> {[], [ImageBatch], [Pdf], [Docx]}"
    and a_pdf: "invoked e1 = [Pdf] \<longrightarrow>
      fst (handle_image_batch (seps w) (bot_member w) (api w ImageBatch) m) = Inr False"
    and a_docx: "invoked e1 = [Docx] \<longrightarrow>
      fst (handle_image_batch (seps w) (bot_member w) (api w ImageBatch) m) = Inr False \<and>
      fst (handle_pdf (max_file_size w) (bot_member w) (api w Pdf) (processed_pdf_messages st) m)
        = Inr False"
    and same: "processed_files s1 = processed_files st"
    using attachment_handlers_invoke [of w st m] by (simp_all add: a)
  have t': "invoked e2 \<in> {[], [Video], [YouTube], [Referral]}"
    and t_youtube: "invoked e2 = [YouTube] \<longrightarrow>
      fst (handle_mp4 (api w Video) (processed_files st) m) = Inr False"
    and t_referral: "invoked e2 = [Referral] \<longrightarrow>
      fst (handle_mp4 (api w Video) (processed_files st) m) = Inr False \<and>
      fst (handle_youtube (findall_youtube w) (get_video_details w) (api w YouTube) m) = Inr False"
    using text_handlers_invoke [of w s1 m] by (simp_all add: t same)
  have d: "dispatched w st m = invoked e1 @ (case r1 of Inl e \<Rightarrow> [] | Inr u \<Rightarrow> invoked e2)"
    using False by (simp add: dispatched_def on_message_def a t invoked_append split: sum.splits)
  define y where "y = (case r1 of Inl e \<Rightarrow> [] | Inr u \<Rightarrow> invoked e2)"
  have y: "y \<in> {[], [Video], [YouTube], [Referral]}"
    using t' by (simp add: y_def split: sum.splits)
  have y_youtube: "y = [YouTube] \<longrightarrow> invoked e2 = [YouTube]"
    and y_referral: "y = [Referral] \<longrightarrow> invoked e2 = [Referral]"
    by (simp_all add: y_def split: sum.splits)
  have d': "dispatched w st m = invoked e1 @ y"
    using d by (simp add: y_def)
  note k = kinds_split [OF a' y]
  show ?thesis
    unfolding d'
    using k(1) k(2) k(3) a_pdf a_docx t_youtube t_referral y_youtube y_referral
    by (simp only: k(4) k(5) k(6) k(7)) blast
qed

text \<open>
  The theorem at a message that carries a Word document and a YouTube link: the DOCX workflow
  and the YouTube workflow start, after the handlers before them in each group returned
  \<^verbatim>\<open>False\<close>.
\<close>

theorem on_message_one_workflow_per_group_witness:
  "dispatched
     \<lparr>seps = ''/'', max_file_size = 8388608,
      bot_member = Some \<lparr>send_messages = True, attach_files = True, manage_messages = True,
                         create_public_threads = True, manage_threads = True\<rparr>,
      api = (\<lambda>k. \<lparr>notice = None, prompt = None, view = None\<rparr>),
      findall_youtube = (\<lambda>s. if s = ''see https://youtu.be/dQw4w9WgXcQ'' then [''dQw4w9WgXcQ''] else []),
      get_video_details = (\<lambda>i. Some \<lparr>video_title = ''Demo'', video_description = ''A demo''\<rparr>),
      findall_url = (\<lambda>s. []),
      the_web = \<lparr>netloc_of = urlparse_netloc, fetch_with_standard_request = (\<lambda>u. None),
                 fetch_with_mobile_emulation = (\<lambda>u. None), fetch_with_selenium = (\<lambda>u. None),
                 SELENIUM_AVAILABLE = False, parse_html = (\<lambda>h u. None)\<rparr>,
      referral_api = \<lparr>status_send = None, known_edit = None, result_edit = None,
                      embed_send = None, status_delete = None, source_delete = None,
                      error_edit = None\<rparr>,
      REFERRAL_CHANNEL_ID = None\<rparr>
     \<lparr>processed_pdf_messages = {}, processed_files = {}\<rparr>
     \<lparr>message_id = 11, author_is_bot = False, in_guild = True,
      attachments = [\<lparr>filename = ''notes.docx'', size_bytes = 2048, attachment_id = 5\<rparr>],
      content = ''see https://youtu.be/dQw4w9WgXcQ'', channel = TextChannel 1\<rparr>
   = [Docx, YouTube] \<and>
   fst (handle_image_batch ''/''
          (Some \<lparr>send_messages = True, attach_files = True, manage_messages = True,
                 create_public_threads = True, manage_threads = True\<rparr>)
          \<lparr>notice = None, prompt = None, view = None\<rparr>
          \<lparr>message_id = 11, author_is_bot = False, in_guild = True,
           attachments = [\<lparr>filename = ''notes.docx'', size_bytes = 2048, attachment_id = 5\<rparr>],
           content = ''see https://youtu.be/dQw4w9WgXcQ'', channel = TextChannel 1\<rparr>) = Inr False \<and>
   fst (handle_mp4 \<lparr>notice = None, prompt = None, view = None\<rparr> {}
          \<lparr>message_id = 11, author_is_bot = False, in_guild = True,
           attachments = [\<lparr>filename = ''notes.docx'', size_bytes = 2048, attachment_id = 5\<rparr>],
           content = ''see https://youtu.be/dQw4w9WgXcQ'', channel = TextChannel 1\<rparr>) = Inr False"
proof -
  let ?w = "\<lparr>seps = ''/'', max_file_size = 8388608,
      bot_member = Some \<lparr>send_messages = True, attach_files = True, manage_messages = True,
                         create_public_threads = True, manage_threads = True\<rparr>,
      api = (\<lambda>k. \<lparr>notice = None, prompt = None, view = None\<rparr>),
      findall_youtube = (\<lambda>s. if s = ''see https://youtu.be/dQw4w9WgXcQ'' then [''dQw4w9WgXcQ''] else []),
      get_video_details = (\<lambda>i. Some \<lparr>video_title = ''Demo'', video_description = ''A demo''\<rparr>),
      findall_url = (\<lambda>s. []),
      the_web = \<lparr>netloc_of = urlparse_netloc, fetch_with_standard_request = (\<lambda>u. None),
                 fetch_with_mobile_emulation = (\<lambda>u. None), fetch_with_selenium = (\<lambda>u. None),
                 SELENIUM_AVAILABLE = False, parse_html = (\<lambda>h u. None)\<rparr>,
      referral_api = \<lparr>status_send = None, known_edit = None, result_edit = None,
                      embed_send = None, status_delete = None, source_delete = None,
                      error_edit = None\<rparr>,
      REFERRAL_CHANNEL_ID = None\<rparr>"
  let ?st = "\<lparr>processed_pdf_messages = {}, processed_files = {}\<rparr>"
  let ?m = "\<lparr>message_id = 11, author_is_bot = False, in_guild = True,
      attachments = [\<lparr>filename = ''notes.docx'', size_bytes = 2048, attachment_id = 5\<rparr>],
      content = ''see https://youtu.be/dQw4w9WgXcQ'', channel = TextChannel 1\<rparr>"
  have ext: "snd (splitext ''/'' (lower ''notes.docx'')) = ''.docx''" by code_simp
  have not_image: "''.docx'' \<notin> set IMAGE_EXTENSIONS" by code_simp
  have not_pdf: "\<not> endswith (lower ''notes.docx'') ''.pdf''" by code_simp
  have docx: "endswith (lower ''notes.docx'') ''.docx''" by code_simp
  have not_video: "\<not> video_match ''notes.docx''" by code_simp
  have run: "dispatched ?w ?st ?m = [Docx, YouTube]"
    by (simp add: dispatched_def on_message_def attachment_handlers_def text_handlers_def
        handle_image_batch_def image_attachments_def handle_pdf_def handle_docx_def
        handle_mp4_def handle_youtube_def then_run_def call_def return_def
        ext not_image not_pdf docx not_video)
  from run on_message_one_workflow_per_group [of ?w ?st ?m]
  show ?thesis by simp
qed

text \<open>
  C1 as the specification words it allows one workflow for a message. A message that carries a
  PDF and a video file starts two: the PDF handler attaches its options view, and the video
  handler, which is asked whatever the attachment handlers answered, attaches its own.
\<close>

theorem on_message_two_workflows_counterexample:
  "dispatched
     \<lparr>seps = ''/'', max_file_size = 8388608,
      bot_member = Some \<lparr>send_messages = True, attach_files = True, manage_messages = True,
                         create_public_threads = True, manage_threads = True\<rparr>,
      api = (\<lambda>k. \<lparr>notice = None, prompt = None, view = None\<rparr>),
      findall_youtube = (\<lambda>s. []),
      get_video_details = (\<lambda>i. None),
      findall_url = (\<lambda>s. []),
      the_web = \<lparr>netloc_of = urlparse_netloc, fetch_with_standard_request = (\<lambda>u. None),
                 fetch_with_mobile_emulation = (\<lambda>u. None), fetch_with_selenium = (\<lambda>u. None),
                 SELENIUM_AVAILABLE = False, parse_html = (\<lambda>h u. None)\<rparr>,
      referral_api = \<lparr>status_send = None, known_edit = None, result_edit = None,
                      embed_send = None, status_delete = None, source_delete = None,
                      error_edit = None\<rparr>,
      REFERRAL_CHANNEL_ID = None\<rparr>
     \<lparr>processed_pdf_messages = {}, processed_files = {}\<rparr>
     \<lparr>message_id = 7, author_is_bot = False, in_guild = True,
      attachments = [\<lparr>filename = ''report.pdf'', size_bytes = 1000, attachment_id = 1\<rparr>,
                     \<lparr>filename = ''clip.mp4'', size_bytes = 4000, attachment_id = 2\<rparr>],
      content = ''the report and the demo'', channel = TextChannel 1\<rparr>
   = [Pdf, Video]"
proof -
  have ext1: "snd (splitext ''/'' (lower ''report.pdf'')) = ''.pdf''" by code_simp
  have ext2: "snd (splitext ''/'' (lower ''clip.mp4'')) = ''.mp4''" by code_simp
  have not_image: "''.pdf'' \<notin> set IMAGE_EXTENSIONS" "''.mp4'' \<notin> set IMAGE_EXTENSIONS"
    by code_simp+
  have pdf: "endswith (lower ''report.pdf'') ''.pdf''" by code_simp
  have not_pdf: "\<not> endswith (lower ''clip.mp4'') ''.pdf''" by code_simp
  have not_video: "\<not> video_match ''report.pdf''" by code_simp
  have video: "video_match ''clip.mp4''" by code_simp
  show ?thesis
    by (simp add: dispatched_def on_message_def attachment_handlers_def text_handlers_def
        handle_image_batch_def image_attachments_def handle_pdf_def
        handle_mp4_def ext1 ext2 not_image pdf not_pdf not_video video)
qed

section \<open>Properties of the metadata fetch\<close>

lemma truthy_or_else: "or_else v other \<noteq> [] \<longleftrightarrow> truthy v \<or> other \<noteq> []"
  by (simp add: or_else_def truthy_def split: option.splits)

lemma extract_domain:
  "netloc_of w u = Inr d \<Longrightarrow> extract_metadata_from_html w html u = Some md \<Longrightarrow> domain md = d"
  by (auto simp add: extract_metadata_from_html_def split: option.splits if_splits)

lemma extract_none: "extract_metadata_from_html w None u = None"
  by (simp add: extract_metadata_from_html_def)

lemma fallback_fields:
  "truthy (title (fallback_metadata d u)) \<and> domain (fallback_metadata d u) = d \<and>
   error (fallback_metadata d u) = Some ''403 Forbidden''"
  by (simp add: fallback_metadata_def truthy_def)

lemma get_website_metadata_parsed:
  "(netloc_of w u = Inr d \<longrightarrow>
      (\<exists>md. get_website_metadata w u = Inr md \<and> truthy (title md) \<and> domain md = d) \<and>
      (fetch_with_standard_request w u = None \<and> fetch_with_mobile_emulation w u = None \<and>
       (SELENIUM_AVAILABLE w \<longrightarrow> fetch_with_selenium w u = None) \<longrightarrow>
         get_website_metadata w u = Inr (fallback_metadata d u) \<and>
         truthy (title (fallback_metadata d u)) \<and> domain (fallback_metadata d u) = d \<and>
         error (fallback_metadata d u) = Some ''403 Forbidden'')) \<and>
   embed_title (create_referral_embed u any_md) \<noteq> []"
proof -
  have embed: "embed_title (create_referral_embed u any_md) \<noteq> []"
    by (simp add: create_referral_embed_def truthy_or_else)
  have returns: "\<exists>md. get_website_metadata w u = Inr md \<and> truthy (title md) \<and> domain md = d"
    if n: "netloc_of w u = Inr d"
  proof -
    have dom: "domain md = d" if "extract_metadata_from_html w html u = Some md" for html md
      using n that by (rule extract_domain)
    have upd: "domain (update_missing md mm) = domain md" for md mm
      by (simp add: update_missing_def)
    show ?thesis
      using dom upd fallback_fields [of d u]
      by (auto simp add: get_website_metadata_def n Let_def split: option.splits)
  qed
  have placeholder: "get_website_metadata w u = Inr (fallback_metadata d u)"
    if n: "netloc_of w u = Inr d"
      and f: "fetch_with_standard_request w u = None" "fetch_with_mobile_emulation w u = None"
        "SELENIUM_AVAILABLE w \<longrightarrow> fetch_with_selenium w u = None"
    using f by (simp add: get_website_metadata_def n Let_def extract_none incomplete_def truthy_def)
  from embed returns placeholder fallback_fields [of d u] show ?thesis by blast
qed

lemma fetched_append: "fetched (xs @ ys) = fetched xs @ fetched ys"
  by (induction xs rule: fetched.induct) simp_all

lemma fetched_then_run:
  "fetched (snd (then_run r f)) =
     fetched (snd r) @ (case fst r of Inl e \<Rightarrow> [] | Inr a \<Rightarrow> fetched (snd (f a)))"
  by (cases r) (simp add: then_run_def fetched_append split: sum.splits prod.splits)

lemma fetched_try_except:
  "fetched (snd (try_except r h)) =
     fetched (snd r) @ (case fst r of Inl e \<Rightarrow> fetched (snd (h e)) | Inr a \<Rightarrow> [])"
  by (cases r) (simp add: try_except_def fetched_append split: sum.splits prod.splits)

lemma fetched_referral_body:
  "set (fetched (snd (referral_body w calls m u d))) \<subseteq> {u}"
proof -
  have call: "fetched (snd (call ev outcome)) = []" if "\<And>x. fetched [ev x] = []" for ev outcome
    using that by (simp add: call_def split: option.splits)
  have edit: "fetched (snd (call (EditStatus c) outcome)) = []" for c outcome
    by (rule call) simp
  have send: "fetched (snd (call (Send t i) outcome)) = []" for t i outcome
    by (rule call) simp
  have delete_status: "fetched (snd (call DeleteStatus outcome)) = []" for outcome
    by (rule call) simp
  have delete_source: "fetched (snd (call DeleteSource outcome)) = []" for outcome
    by (rule call) simp
  have fetch: "fetched (snd (case get_website_metadata w u of
             Inl e \<Rightarrow> (Inl e, [FetchMetadata u])
           | Inr md \<Rightarrow> (Inr md, [FetchMetadata u]))) = [u]"
    by (simp split: sum.splits)
  show ?thesis
    unfolding referral_body_def Let_def
    by (auto simp add: fetched_then_run fetched_try_except edit send delete_status delete_source
        fetch return_def split: sum.splits)
qed

text \<open>
  The handler parses the URL itself, before its first message and outside any \<^verbatim>\<open>try\<close>: on a
  URL the parser refuses the handler raises there and the fetch is not called; so the fetch is
  only ever called with a URL that has a network location.
\<close>

lemma handle_referral_unparsed:
  "channel_id (channel m) = referral_channel_id \<Longrightarrow> find_urls (content m) = u # us \<Longrightarrow>
   netloc_of w u = Inl e \<Longrightarrow>
   handle_referral find_urls w calls referral_channel_id m = (Inl e, [])"
  by (simp add: handle_referral_def)

lemma handle_referral_fetches_parsed:
  assumes "u \<in> set (fetched (snd (handle_referral find_urls w calls referral_channel_id m)))"
  shows "\<exists>d. netloc_of w u = Inr d"
proof (cases "find_urls (content m)")
  case Nil
  with assms show ?thesis by (simp add: handle_referral_def split: if_splits)
next
  case (Cons u' us)
  show ?thesis
  proof (cases "netloc_of w u'")
    case (Inl e)
    with Cons assms show ?thesis by (simp add: handle_referral_def split: if_splits)
  next
    case (Inr d)
    have "set (fetched (snd (handle_referral find_urls w calls referral_channel_id m))) \<subseteq> {u'}"
      using fetched_referral_body [of w calls m u' d]
      by (auto simp add: handle_referral_def Cons Inr fetched_then_run fetched_try_except
          call_def return_def split: sum.splits option.splits)
    with assms have "u = u'" by auto
    with Inr show ?thesis by simp
  qed
qed

text \<open>
  C9. Every call of the metadata fetch that the referral handler makes returns a record: the
  fetch does not raise. The title of the record is a non-empty string and its domain is the
  network location of the URL. When every fetch strategy fails, the record is the placeholder,
  whose title is non-empty, whose domain is the network location, and which carries the error
  tag. The embed built from a record, whatever the record, has a non-empty title.
\<close>

theorem handle_referral_fetch_returns:
  "(u \<in> set (fetched (snd (handle_referral find_urls w calls referral_channel_id m))) \<longrightarrow>
      (\<exists>d md. netloc_of w u = Inr d \<and> get_website_metadata w u = Inr md \<and>
         truthy (title md) \<and> domain md = d \<and>
         (fetch_with_standard_request w u = None \<and> fetch_with_mobile_emulation w u = None \<and>
          (SELENIUM_AVAILABLE w \<longrightarrow> fetch_with_selenium w u = None) \<longrightarrow>
            md = fallback_metadata d u \<and> title md \<noteq> None \<and> title md \<noteq> Some [] \<and>
            error md = Some ''403 Forbidden''))) \<and>
   embed_title (create_referral_embed u any_md) \<noteq> []"
proof -
  have embed: "embed_title (create_referral_embed u any_md) \<noteq> []"
    by (simp add: create_referral_embed_def truthy_or_else)
  have fetch: "\<exists>d md. netloc_of w u = Inr d \<and> get_website_metadata w u = Inr md \<and>
         truthy (title md) \<and> domain md = d \<and>
         (fetch_with_standard_request w u = None \<and> fetch_with_mobile_emulation w u = None \<and>
          (SELENIUM_AVAILABLE w \<longrightarrow> fetch_with_selenium w u = None) \<longrightarrow>
            md = fallback_metadata d u \<and> title md \<noteq> None \<and> title md \<noteq> Some [] \<and>
            error md = Some ''403 Forbidden'')"
    if called: "u \<in> set (fetched (snd (handle_referral find_urls w calls referral_channel_id m)))"
  proof -
    from called obtain d where d: "netloc_of w u = Inr d"
      using handle_referral_fetches_parsed by blast
    from d get_website_metadata_parsed [of w u d any_md]
    obtain md where md: "get_website_metadata w u = Inr md" "truthy (title md)" "domain md = d"
      by blast
    have placeholder: "md = fallback_metadata d u \<and> title md \<noteq> None \<and> title md \<noteq> Some [] \<and>
        error md = Some ''403 Forbidden''"
      if "fetch_with_standard_request w u = None \<and> fetch_with_mobile_emulation w u = None \<and>
          (SELENIUM_AVAILABLE w \<longrightarrow> fetch_with_selenium w u = None)"
    proof -
      from that d get_website_metadata_parsed [of w u d any_md]
      have "get_website_metadata w u = Inr (fallback_metadata d u)" by blast
      with md have "md = fallback_metadata d u" by simp
      then show ?thesis by (simp add: fallback_metadata_def)
    qed
    from d md placeholder show ?thesis by blast
  qed
  from embed fetch show ?thesis by blast
qed

text \<open>
  The theorem at a link posted in the referral channel whose site answers no strategy: the
  handler calls the fetch, the placeholder comes back, and its embed is titled.
\<close>

theorem handle_referral_fetch_returns_witness:
  "''https://shop.example/ref?id=3'' \<in> set (fetched (snd (handle_referral
     (\<lambda>text. [''https://shop.example/ref?id=3''])
     \<lparr>netloc_of = urlparse_netloc, fetch_with_standard_request = (\<lambda>u. None),
      fetch_with_mobile_emulation = (\<lambda>u. None), fetch_with_selenium = (\<lambda>u. None),
      SELENIUM_AVAILABLE = True, parse_html = (\<lambda>h u. None)\<rparr>
     \<lparr>status_send = None, known_edit = None, result_edit = None, embed_send = None,
      status_delete = None, source_delete = None, error_edit = None\<rparr>
     3
     \<lparr>message_id = 7, author_is_bot = False, in_guild = True, attachments = [],
      content = ''join https://shop.example/ref?id=3'', channel = TextChannel 3\<rparr>))) \<and>
   get_website_metadata
     \<lparr>netloc_of = urlparse_netloc, fetch_with_standard_request = (\<lambda>u. None),
      fetch_with_mobile_emulation = (\<lambda>u. None), fetch_with_selenium = (\<lambda>u. None),
      SELENIUM_AVAILABLE = True, parse_html = (\<lambda>h u. None)\<rparr>
     ''https://shop.example/ref?id=3''
   = Inr (fallback_metadata ''shop.example'' ''https://shop.example/ref?id=3'') \<and>
   error (fallback_metadata ''shop.example'' ''https://shop.example/ref?id=3'') = Some ''403 Forbidden'' \<and>
   embed_title (create_referral_embed ''https://shop.example/ref?id=3''
     (fallback_metadata ''shop.example'' ''https://shop.example/ref?id=3'')) \<noteq> []"
proof -
  have n: "urlparse_netloc ''https://shop.example/ref?id=3'' = Inr ''shop.example''"
    by code_simp
  have b: "\<not> contains ''shop.example'' ''blofin.com''"
    by code_simp
  have called: "''https://shop.example/ref?id=3'' \<in> set (fetched (snd (handle_referral
     (\<lambda>text. [''https://shop.example/ref?id=3''])
     \<lparr>netloc_of = urlparse_netloc, fetch_with_standard_request = (\<lambda>u. None),
      fetch_with_mobile_emulation = (\<lambda>u. None), fetch_with_selenium = (\<lambda>u. None),
      SELENIUM_AVAILABLE = True, parse_html = (\<lambda>h u. None)\<rparr>
     \<lparr>status_send = None, known_edit = None, result_edit = None, embed_send = None,
      status_delete = None, source_delete = None, error_edit = None\<rparr>
     3
     \<lparr>message_id = 7, author_is_bot = False, in_guild = True, attachments = [],
      content = ''join https://shop.example/ref?id=3'', channel = TextChannel 3\<rparr>)))"
    by (simp add: handle_referral_def referral_body_def n b fetched_then_run fetched_try_except
        call_def return_def split: sum.splits)
  from n called handle_referral_fetch_returns
    [of "''https://shop.example/ref?id=3''" "\<lambda>text. [''https://shop.example/ref?id=3'']"
        "\<lparr>netloc_of = urlparse_netloc, fetch_with_standard_request = (\<lambda>u. None),
          fetch_with_mobile_emulation = (\<lambda>u. None), fetch_with_selenium = (\<lambda>u. None),
          SELENIUM_AVAILABLE = True, parse_html = (\<lambda>h u. None)\<rparr>"
        "\<lparr>status_send = None, known_edit = None, result_edit = None, embed_send = None,
          status_delete = None, source_delete = None, error_edit = None\<rparr>"
        3
        "\<lparr>message_id = 7, author_is_bot = False, in_guild = True, attachments = [],
          content = ''join https://shop.example/ref?id=3'', channel = TextChannel 3\<rparr>"
        "fallback_metadata ''shop.example'' ''https://shop.example/ref?id=3''"]
  show ?thesis by auto
qed

section \<open>Properties of the options views\<close>

lemma delivered_append: "delivered (xs @ ys) = delivered xs @ delivered ys"
  by (induction xs rule: delivered.induct) simp_all

lemma presses_after_click:
  "button_clicked v \<Longrightarrow>
   presses process ps v = (map (\<lambda>p. Defer (defer_outcome (snd p))) ps, v)"
  by (induction ps) (auto simp add: press_def call_def split: option.splits)

lemma delivered_defers: "delivered (map (\<lambda>p. Defer (f p)) ps) = []"
  by (induction ps) simp_all

text \<open>
  C3. Whatever the processing method of the view is, and whatever buttons are pressed in
  whatever order: the first press disables the buttons and, when that edit went through, runs
  the method once with its own choice; every later press of either button is answered by
  \<^verbatim>\<open>defer()\<close> and nothing else. So the trace of all presses holds one run of the method, and
  what was delivered is what that one run delivered.
\<close>

theorem presses_first_only:
  "presses process ((b, i) # ps) \<lparr>button_clicked = False\<rparr> =
     (DisableButtons (edit_message_outcome i) #
        (if edit_message_outcome i = None then snd (process (b = Create_Thread)) else []) @
        map (\<lambda>p. Defer (defer_outcome (snd p))) ps,
      \<lparr>button_clicked = True\<rparr>) \<and>
   delivered (fst (presses process ((b, i) # ps) \<lparr>button_clicked = False\<rparr>)) =
     (if edit_message_outcome i = None then delivered (snd (process (b = Create_Thread))) else [])"
proof -
  have first: "press process i b \<lparr>button_clicked = False\<rparr> =
      ((if edit_message_outcome i = None then fst (process (b = Create_Thread))
        else Inl (the (edit_message_outcome i)),
        DisableButtons (edit_message_outcome i) #
          (if edit_message_outcome i = None then snd (process (b = Create_Thread)) else [])),
       \<lparr>button_clicked = True\<rparr>)"
    by (cases "process (b = Create_Thread)")
      (simp add: press_def then_run_def call_def split: option.splits)
  have rest: "presses process ps \<lparr>button_clicked = True\<rparr> =
      (map (\<lambda>p. Defer (defer_outcome (snd p))) ps, \<lparr>button_clicked = True\<rparr>)"
    by (simp add: presses_after_click)
  have all: "presses process ((b, i) # ps) \<lparr>button_clicked = False\<rparr> =
     (DisableButtons (edit_message_outcome i) #
        (if edit_message_outcome i = None then snd (process (b = Create_Thread)) else []) @
        map (\<lambda>p. Defer (defer_outcome (snd p))) ps,
      \<lparr>button_clicked = True\<rparr>)"
    unfolding presses.simps first by (simp add: rest)
  show ?thesis
    unfolding all by (simp add: delivered_append delivered_defers)
qed

text \<open>
  The theorem at three presses, "Post Here", then "Create Thread", then "Post Here" again, of a
  view whose processing method posts one page in the channel: the page is posted once.
\<close>

theorem presses_first_only_witness:
  "presses (\<lambda>use_thread. (Inr (), [Send (TextChannel 1) (PageFile 1) None]))
     [(Post_Here, \<lparr>defer_outcome = None, edit_message_outcome = None\<rparr>),
      (Create_Thread, \<lparr>defer_outcome = None, edit_message_outcome = None\<rparr>),
      (Post_Here, \<lparr>defer_outcome = None, edit_message_outcome = None\<rparr>)]
     \<lparr>button_clicked = False\<rparr> =
   ([DisableButtons None, Send (TextChannel 1) (PageFile 1) None, Defer None, Defer None],
    \<lparr>button_clicked = True\<rparr>)"
  using presses_first_only
    [of "\<lambda>use_thread. (Inr (), [Send (TextChannel 1) (PageFile 1) None])" Post_Here
        "\<lparr>defer_outcome = None, edit_message_outcome = None\<rparr>"
        "[(Create_Thread, \<lparr>defer_outcome = None, edit_message_outcome = None\<rparr>),
          (Post_Here, \<lparr>defer_outcome = None, edit_message_outcome = None\<rparr>)]"]
  by simp

section \<open>Properties of the delivery\<close>

lemma delivered_then_run:
  "delivered (snd (then_run r f)) =
     delivered (snd r) @ (case fst r of Inl e \<Rightarrow> [] | Inr a \<Rightarrow> delivered (snd (f a)))"
  by (cases r) (simp add: then_run_def delivered_append split: sum.splits prod.splits)

lemma fst_then_run:
  "fst (then_run r f) = (case fst r of Inl e \<Rightarrow> Inl e | Inr a \<Rightarrow> fst (f a))"
  by (cases r) (simp add: then_run_def split: sum.splits prod.splits)

text \<open>
  When every send goes through, \<^verbatim>\<open>post_images\<close> of the DOCX workflow delivers the pages
  \<open>1\<close> to \<open>k\<close>, each once and in order, in a thread as in a channel.
\<close>

lemma upt_head: "[i..<i + Suc n] = i # [i + 1..<i + 1 + n]"
  by (simp add: upt_conv_Cons)

lemma post_rest_delivers:
  "(\<And>j. send P target (PageFile j) = None) \<Longrightarrow>
   fst (post_rest P target i n) = Inr () \<and>
   delivered (snd (post_rest P target i n)) = map (\<lambda>j. (target, PageFile j)) [i..<i + n]"
proof (induction n arbitrary: i)
  case 0
  then show ?case by (simp add: return_def)
next
  case (Suc n)
  have step: "fst (post_rest P target (i + 1) n) = Inr () \<and>
      delivered (snd (post_rest P target (i + 1) n)) =
        map (\<lambda>j. (target, PageFile j)) [i + 1..<i + 1 + n]"
    using Suc.IH [of "i + 1"] Suc.prems by simp
  have "[i..<i + Suc n] = i # [i + 1..<i + 1 + n]"
    by (simp add: upt_conv_Cons)
  with step Suc.prems show ?case
    by (simp add: delivered_then_run fst_then_run call_def)
qed

lemma post_images_delivers:
  assumes "\<And>j. send P target (PageFile j) = None"
  shows "delivered (snd (post_images P target k use_thread)) =
           map (\<lambda>j. (target, PageFile j)) [1..<Suc k]"
proof (cases "use_thread \<and> is_Thread target \<and> k \<noteq> 0")
  case True
  then obtain k' where k: "k = Suc k'" by (cases k) auto
  define rest where
    "rest = map (\<lambda>j. (target, PageFile j)) [Suc 0 + 1..<Suc 0 + 1 + k']"
  have "[Suc 0..<Suc 0 + Suc k'] = Suc 0 # [Suc 0 + 1..<Suc 0 + 1 + k']"
    by (rule upt_head)
  then have all: "map (\<lambda>j. (target, PageFile j)) [1..<Suc k] = (target, PageFile (Suc 0)) # rest"
    by (simp add: rest_def k del: upt_Suc)
  have r: "fst (post_rest P target (Suc (Suc 0)) k') = Inr ()"
    "delivered (snd (post_rest P target (Suc (Suc 0)) k')) = rest"
    using post_rest_delivers [of P target "Suc 0 + 1" k'] assms
    by (simp_all add: rest_def del: upt_Suc)
  have "delivered (snd (post_images P target (Suc k') use_thread)) =
      (target, PageFile (Suc 0)) # rest"
    using True assms r
    by (cases "post_rest P target (Suc (Suc 0)) k'")
      (simp add: post_images_def try_except_def then_run_def call_def)
  then show ?thesis unfolding all by (simp only: k)
next
  case False
  show ?thesis
  proof (cases "use_thread \<and> is_Thread target")
    case True
    with False have "k = 0" by simp
    with True show ?thesis
      by (simp add: post_images_def try_except_def then_run_def return_def)
  next
    case False
    define every where "every = map (\<lambda>j. (target, PageFile j)) [1..<1 + k]"
    have r: "fst (post_rest P target 1 k) = Inr ()" "delivered (snd (post_rest P target 1 k)) = every"
      using post_rest_delivers [of P target 1 k] assms by (simp_all add: every_def)
    have "delivered (snd (post_images P target k use_thread)) = every"
      using False r
      by (cases "post_rest P target 1 k")
        (auto simp add: post_images_def try_except_def then_run_def return_def)
    then show ?thesis by (simp add: every_def)
  qed
qed

text \<open>
  The upload loop of the PDF workflow, when every page renders and every send goes through:
  from page \<open>i\<close> on it delivers the pages after \<open>start_idx\<close> (all of them outside a thread).
\<close>

lemma upload_pages_delivers:
  "(\<And>j. send P target (PageFile j) = None) \<Longrightarrow> list_all (\<lambda>p. p = Renders) doc \<Longrightarrow>
   fst (upload_pages P target use_thread start_idx i doc) = Inr () \<and>
   delivered (snd (upload_pages P target use_thread start_idx i doc)) =
     map (\<lambda>j. (target, PageFile j))
       (filter (\<lambda>j. \<not> (j \<le> start_idx \<and> use_thread)) [i..<i + length doc])"
proof (induction doc arbitrary: i)
  case Nil
  then show ?case by (simp add: return_def)
next
  case (Cons p doc)
  define rest where "rest = map (\<lambda>j. (target, PageFile j))
          (filter (\<lambda>j. \<not> (j \<le> start_idx \<and> use_thread)) [i + 1..<i + 1 + length doc])"
  have step: "fst (upload_pages P target use_thread start_idx (i + 1) doc) = Inr ()"
    "delivered (snd (upload_pages P target use_thread start_idx (i + 1) doc)) = rest"
    using Cons.IH [of "i + 1"] Cons.prems by (simp_all add: rest_def del: upt_Suc)
  have "[i..<i + length (p # doc)] = i # [i + 1..<i + 1 + length doc]"
    by (simp only: length_Cons upt_head)
  then have all: "map (\<lambda>j. (target, PageFile j))
       (filter (\<lambda>j. \<not> (j \<le> start_idx \<and> use_thread)) [i..<i + length (p # doc)]) =
     (if i \<le> start_idx \<and> use_thread then rest else (target, PageFile i) # rest)"
    by (simp add: rest_def del: upt_Suc length_Cons)
  have p: "p = Renders" using Cons.prems by simp
  have "fst (upload_pages P target use_thread start_idx i (p # doc)) = Inr () \<and>
      delivered (snd (upload_pages P target use_thread start_idx i (p # doc))) =
      (if i \<le> start_idx \<and> use_thread then rest else (target, PageFile i) # rest)"
  proof (cases "i \<le> start_idx \<and> use_thread")
    case True
    then have "upload_pages P target use_thread start_idx i (p # doc) =
        upload_pages P target use_thread start_idx (i + 1) doc"
      by simp
    with step True show ?thesis by simp
  next
    case False
    then have "upload_pages P target use_thread start_idx i (p # doc) =
        then_run (send_page P target i)
          (\<lambda>_. upload_pages P target use_thread start_idx (i + 1) doc)"
      by (auto simp add: p)
    with step False Cons.prems(1) show ?thesis
      by (simp add: delivered_then_run fst_then_run send_page_def)
  qed
  then show ?case unfolding all by simp
qed

text \<open>
  C4 holds for the DOCX workflow (\<open>post_images_delivers\<close>) and for the PDF workflow in a text
  channel and in a new thread. It fails in the PDF workflow when the message was posted in a
  thread and the creation of a new thread fails: the workflow falls back to the channel of the
  message, which is a thread, so \<^verbatim>\<open>process_pdf\<close> does not send the first page on its own
  (\<^verbatim>\<open>target != self.message.channel\<close> is false) and \<^verbatim>\<open>convert_and_upload_pdf\<close> skips it
  all the same (\<^verbatim>\<open>isinstance(target, discord.Thread)\<close> is true). Of a document of two pages
  only the second is delivered.
\<close>

theorem process_pdf_loses_first_page:
  "delivered (snd (fst (process_pdf
     \<lparr>edit = (\<lambda>c. None), send = (\<lambda>t i. None), resend = (\<lambda>t i. None),
      delete_status = None, delete_source = None, delete_thread = (\<lambda>t. None)\<rparr>
     (Inr (Some [Renders, Renders])) None
     (retrying_creator (\<lambda>attempt. Inl (Exception ''AttributeError'')))
     \<lparr>message_id = 7, author_is_bot = False, in_guild = True,
      attachments = [\<lparr>filename = ''report.pdf'', size_bytes = 1000, attachment_id = 1\<rparr>],
      content = [], channel = Thread 5\<rparr>
     \<lparr>filename = ''report.pdf'', size_bytes = 1000, attachment_id = 1\<rparr>
     {7} True)))
   = [(Thread 5, PageFile 2)]"
  by (simp add: process_pdf_def pdf_target_def pdf_deliver_def retrying_creator_def
      create_thread_with_retry_def range_3 truncate_thread_name_def get_first_page_def
      convert_and_upload_pdf_def wait_for_def send_page_def then_run_def try_except_def
      call_def return_def)

section \<open>Properties of the cleanup after a failure\<close>

text \<open>
  The handler of a failed conversion deletes a thread it finds as target; the handler of the
  timeout only edits the status message.
\<close>

lemma pdf_failed_conversion_deletes_thread:
  "pdf_failed P m True (Some (Thread t)) (ValueError s) =
     then_run (safe_edit_processing_msg P m [CrossMark, Lit '' Error processing PDF: '', StrOf (ValueError s)])
       (\<lambda>_. try_except (call (DeleteThread (Thread t)) (delete_thread P (Thread t))) (\<lambda>e. return ()))"
  by (simp add: pdf_failed_def)

lemma pdf_failed_timeout_keeps_thread:
  "pdf_failed P m use_thread target TimeoutError =
     safe_edit_processing_msg P m [CrossMark, Lit '' PDF processing timed out after 5 minutes.'']"
  by (simp add: pdf_failed_def)

text \<open>
  C6 fails in the PDF workflow on a timeout. The user chose "Create Thread", the thread is
  created, the first page is posted in it, and the upload is cancelled by \<^verbatim>\<open>wait_for\<close> before
  the second page is out: the workflow ends with the timeout message as status, and no call
  deletes the thread.
\<close>

theorem process_pdf_timeout_leaves_thread:
  "fst (process_pdf
     \<lparr>edit = (\<lambda>c. None), send = (\<lambda>t i. None), resend = (\<lambda>t i. None),
      delete_status = None, delete_source = None, delete_thread = (\<lambda>t. None)\<rparr>
     (Inr (Some [Renders, Renders])) (Some 0)
     (retrying_creator (\<lambda>attempt. Inr 9))
     \<lparr>message_id = 7, author_is_bot = False, in_guild = True,
      attachments = [\<lparr>filename = ''report.pdf'', size_bytes = 1000, attachment_id = 1\<rparr>],
      content = [], channel = TextChannel 3\<rparr>
     \<lparr>filename = ''report.pdf'', size_bytes = 1000, attachment_id = 1\<rparr>
     {7} True)
   = (Inr (),
      [EditStatus [Lit ''Converting PDF to images...''] None, ReadAttachment None,
       CreateThread 0 ''report.pdf'' (Inr 9), Settle, ScanNotification,
       Send (Thread 9) (PageFile 1) None, Pause,
       EditStatus [CrossMark, Lit '' PDF processing timed out after 5 minutes.''] None])"
  by (simp add: process_pdf_def pdf_target_def pdf_deliver_def pdf_failed_def
      safe_edit_processing_msg_def retrying_creator_def
      create_thread_with_retry_def range_3 truncate_thread_name_def get_first_page_def
      convert_and_upload_pdf_def wait_for_def send_page_def then_run_def try_except_def
      call_def return_def)

text \<open>
  The video workflow leaves a thread behind in the same way when the cutting into segments
  fails: \<^verbatim>\<open>handle_large_video\<close> catches the exception itself and edits the status message, so
  the handler of \<^verbatim>\<open>process_video\<close> that would delete the thread never runs.
\<close>

lemma process_video_segmenting_failure_leaves_thread:
  "process_video
     \<lparr>edit = (\<lambda>c. None), send = (\<lambda>t i. None), resend = (\<lambda>t i. None),
      delete_status = None, delete_source = None, delete_thread = (\<lambda>t. None)\<rparr>
     \<lparr>download = None, encoder = None, within_limit = False,
      segmenting = Inl (ValueError ''Could not determine video duration'')\<rparr>
     (retrying_creator (\<lambda>attempt. Inr 9))
     \<lparr>message_id = 7, author_is_bot = False, in_guild = True,
      attachments = [\<lparr>filename = ''clip.mov'', size_bytes = 1000, attachment_id = 1\<rparr>],
      content = [], channel = TextChannel 3\<rparr>
     \<lparr>filename = ''clip.mov'', size_bytes = 1000, attachment_id = 1\<rparr>
     True
   = (Inr (),
      [EditStatus [Lit ''Processing '', Lit ''clip.mov'', Lit ''... This may take a few minutes.''] None,
       ReadAttachment None,
       EditStatus [Lit ''Processing video... This may take a few minutes.''] None,
       EditStatus [Lit ''Video processed. Preparing to post''] None,
       CreateThread 0 ''clip.mp4'' (Inr 9), Settle, ScanNotification,
       EditStatus [Lit ''Created thread. Preparing video...''] None,
       EditStatus [Lit ''Video too large for Discord. Creating shorter clips...''] None,
       EditStatus [CrossMark, Lit '' Could not process large video: '',
                   StrOf (ValueError ''Could not determine video duration'')] None])"
  by (simp add: process_video_def video_target_def video_deliver_def handle_large_video_def
      mp4_name_def retrying_creator_def create_thread_with_retry_def range_3
      truncate_thread_name_def then_run_def try_except_def call_def return_def)

section \<open>Properties of the answer to a delivery error\<close>





section \<open>Properties of thread names\<close>

lemma created_names_append: "created_names (xs @ ys) = created_names xs @ created_names ys"
  by (induction xs rule: created_names.induct) simp_all

lemma created_names_take:
  "created_names evs = [] \<Longrightarrow> created_names (take n evs) = []"
proof (induction evs arbitrary: n rule: created_names.induct)
  case 1
  then show ?case by simp
next
  case (2 attempt thread_name outcome evs)
  then show ?case by simp
qed (case_tac n; simp)+

lemma created_names_then_run:
  "created_names (snd (then_run r f)) =
     created_names (snd r) @ (case fst r of Inl e \<Rightarrow> [] | Inr a \<Rightarrow> created_names (snd (f a)))"
  by (cases r) (simp add: then_run_def created_names_append split: sum.splits prod.splits)

lemma created_names_try_except:
  "created_names (snd (try_except r h)) =
     created_names (snd r) @ (case fst r of Inl e \<Rightarrow> created_names (snd (h e)) | Inr a \<Rightarrow> [])"
  by (cases r) (simp add: try_except_def created_names_append split: sum.splits prod.splits)

lemma snd_call: "snd (call f outcome) = [f outcome]"
  by (simp add: call_def split: option.splits)

lemma created_names_send_page: "created_names (snd (send_page P target i)) = []"
  by (simp add: send_page_def created_names_then_run snd_call split: option.splits exn.splits)

lemma created_names_upload_pages:
  "created_names (snd (upload_pages P target use_thread start_idx i doc)) = []"
  by (induction doc arbitrary: i use_thread)
    (simp_all add: return_def created_names_then_run created_names_send_page
      split: sum.splits pdf_page.splits)

lemma created_names_post_rest: "created_names (snd (post_rest P target i n)) = []"
  by (induction n arbitrary: i)
    (simp_all add: return_def created_names_then_run snd_call split: sum.splits)

lemma created_names_upload_segments:
  "created_names (snd (upload_segments P target file_name n i left uploads)) = []"
  by (induction left arbitrary: i uploads)
    (simp_all add: return_def created_names_then_run snd_call Let_def
      split: sum.splits option.splits)

lemma created_names_safe_edit: "created_names (snd (safe_edit_processing_msg P m c)) = []"
  by (simp add: safe_edit_processing_msg_def created_names_then_run created_names_try_except
      snd_call split: sum.splits)

lemma created_names_pdf_failed: "created_names (snd (pdf_failed P m use_thread target e)) = []"
  by (simp add: pdf_failed_def created_names_then_run created_names_try_except
      created_names_safe_edit snd_call return_def split: sum.splits option.splits)

lemma created_names_wait_for:
  "created_names (snd r) = [] \<Longrightarrow> created_names (snd (wait_for cancelled_after r)) = []"
  by (simp add: wait_for_def created_names_take split: option.splits)

lemma created_names_upload_pages_pair:
  "upload_pages P target use_thread start_idx i doc = (r, evs) \<Longrightarrow> created_names evs = []"
  using created_names_upload_pages [of P target use_thread start_idx i doc] by simp

lemma created_names_convert:
  "created_names (snd (convert_and_upload_pdf P pdf_bytes target use_thread)) = []"
  by (auto simp add: convert_and_upload_pdf_def Let_def
      split: option.splits prod.splits sum.splits dest: created_names_upload_pages_pair)

lemma created_names_pdf_deliver:
  "created_names (snd (pdf_deliver P cancelled_after m pdf_bytes target final_message use_thread)) = []"
  by (simp add: pdf_deliver_def created_names_then_run created_names_try_except
      created_names_wait_for created_names_convert snd_call return_def
      split: sum.splits option.splits)

lemma created_names_retry:
  "created_names (snd (create_thread_with_retry create n)) \<noteq> [] \<and>
   set (created_names (snd (create_thread_with_retry create n))) = {n}"
  by (simp add: create_thread_with_retry_def range_3 split: sum.splits prod.splits)

lemma created_names_post_images: "created_names (snd (post_images P target k use_thread)) = []"
  by (simp add: post_images_def Let_def created_names_try_except created_names_then_run
      created_names_post_rest snd_call return_def split: sum.splits)

lemma created_names_docx_failed: "created_names (snd (docx_failed P use_thread target e)) = []"
  by (simp add: docx_failed_def created_names_then_run created_names_try_except
      snd_call return_def split: sum.splits option.splits)

lemma created_names_docx_deliver:
  "created_names (snd (docx_deliver P k target final_message use_thread)) = []"
  by (simp add: docx_deliver_def created_names_then_run created_names_try_except
      created_names_post_images snd_call return_def split: sum.splits option.splits)

lemma created_names_handle_large_video:
  "created_names (snd (handle_large_video P vw file_name target use_thread thread_ref)) = []"
  by (simp add: handle_large_video_def Let_def created_names_then_run created_names_try_except
      created_names_upload_segments snd_call return_def split: sum.splits option.splits)

lemma created_names_video_deliver:
  "created_names (snd (video_deliver P vw file_name target use_thread thread_ref)) = []"
  by (simp add: video_deliver_def Let_def created_names_then_run created_names_try_except
      created_names_handle_large_video snd_call return_def split: sum.splits option.splits)

lemma created_names_video_failed:
  "created_names (snd (video_failed P use_thread thread_ref e)) = []"
  by (simp add: video_failed_def created_names_then_run created_names_try_except
      snd_call return_def split: sum.splits option.splits)

lemma created_names_retrying_creator:
  "created_names (snd (retrying_creator create n)) \<noteq> [] \<and>
   set (created_names (snd (retrying_creator create n))) = {n}"
  using created_names_retry [of create n]
  by (simp add: retrying_creator_def case_prod_beta)

lemma created_names_pdf_target:
  "created_names (snd (pdf_target (retrying_creator create) m att use_thread)) =
     (if use_thread
      then created_names (snd (retrying_creator create (truncate_thread_name (filename att))))
      else [])"
  by (simp add: pdf_target_def case_prod_beta split: sum.splits option.splits)

lemma created_names_docx_target:
  "created_names (snd (docx_target (retrying_creator create) m att use_thread)) =
     (if use_thread
      then created_names (snd (retrying_creator create (truncate_thread_name (filename att))))
      else [])"
  by (simp add: docx_target_def case_prod_beta split: sum.splits option.splits)

lemma created_names_video_target:
  "created_names (snd (fst (video_target P (retrying_creator create) m file_name use_thread))) =
     (if use_thread
      then created_names (snd (retrying_creator create (truncate_thread_name file_name)))
      else [])"
  by (simp add: video_target_def Let_def created_names_then_run created_names_try_except
      snd_call return_def case_prod_beta split: sum.splits option.splits)

lemma created_names_process_pdf:
  "created_names (snd (fst (process_pdf P read cancelled_after (retrying_creator create) m att
       processed use_thread))) =
     (if use_thread \<and> edit P [Lit ''Converting PDF to images...''] = None \<and> (\<exists>b. read = Inr b)
      then created_names (snd (retrying_creator create (truncate_thread_name (filename att))))
      else [])"
  by (cases read)
    (simp_all add: process_pdf_def Let_def then_run_def call_def case_prod_beta
      created_names_append created_names_pdf_failed created_names_try_except
      created_names_pdf_deliver created_names_pdf_target split: sum.splits option.splits)

lemma created_names_process_docx:
  "created_names (snd (process_docx P read converted (retrying_creator create) m att use_thread)) =
     (if use_thread \<and> edit P [Lit ''Converting DOCX to images...''] = None \<and> read = None \<and>
         (\<exists>k. converted = Some (Suc k))
      then created_names (snd (retrying_creator create (truncate_thread_name (filename att))))
      else [])"
proof (cases converted)
  case None
  then show ?thesis
    by (simp add: process_docx_def Let_def then_run_def call_def case_prod_beta
        created_names_append created_names_docx_failed split: sum.splits option.splits)
next
  case (Some k)
  then show ?thesis
    by (cases k)
      (simp_all add: process_docx_def Let_def then_run_def call_def return_def case_prod_beta
        created_names_append created_names_docx_failed created_names_try_except
        created_names_docx_deliver created_names_docx_target split: sum.splits option.splits)
qed

lemma created_names_process_video:
  "created_names (snd (process_video P vw (retrying_creator create) m att use_thread)) =
     (if use_thread \<and>
         edit P [Lit ''Processing '', Lit (filename att), Lit ''... This may take a few minutes.''] = None \<and>
         download vw = None \<and>
         edit P [Lit ''Processing video... This may take a few minutes.''] = None \<and>
         encoder vw = None \<and>
         edit P [Lit ''Video processed. Preparing to post''] = None
      then created_names
             (snd (retrying_creator create (truncate_thread_name (mp4_name (filename att)))))
      else [])"
proof -
  define processing where
    "processing = [Lit ''Processing '', Lit (filename att), Lit ''... This may take a few minutes.'']"
  define working where "working = [Lit ''Processing video... This may take a few minutes.'']"
  define prepared where "prepared = [Lit ''Video processed. Preparing to post'']"
  define encoding where
    "encoding = try_except
                  (then_run (call (EditStatus working) (edit P working))
                     (\<lambda>_. case encoder vw of
                             Some e \<Rightarrow> (Inl e, [])
                           | None \<Rightarrow> return ()))
                  (\<lambda>e. (Inl (Exception ''Processing failed''), []))"
  define encoded where
    "encoded = then_run (call (EditStatus processing) (edit P processing))
              (\<lambda>_. then_run (call ReadAttachment (download vw))
                 (\<lambda>_. then_run encoding
                    (\<lambda>_. call (EditStatus prepared) (edit P prepared))))"
  have encoding_names: "created_names (snd encoding) = []"
    by (simp add: encoding_def then_run_def try_except_def call_def return_def
        split: option.splits)
  have encoding_ok: "(\<exists>u. fst encoding = Inr u) \<longleftrightarrow> edit P working = None \<and> encoder vw = None"
    by (simp add: encoding_def then_run_def try_except_def call_def return_def
        split: option.splits)
  have encoded_names: "created_names (snd encoded) = []"
    using encoding_names
    by (simp add: encoded_def created_names_then_run snd_call split: sum.splits)
  have encoded_ok: "(\<exists>u. fst encoded = Inr u) \<longleftrightarrow>
      edit P processing = None \<and> download vw = None \<and> edit P working = None \<and>
      encoder vw = None \<and> edit P prepared = None"
  proof (cases "fst encoding")
    case (Inl e)
    with encoding_ok have no: "\<not> (edit P working = None \<and> encoder vw = None)" by simp
    from Inl have "\<not> (\<exists>u. fst encoded = Inr u)"
      by (simp add: encoded_def then_run_def call_def case_prod_beta split: option.splits)
    with no show ?thesis by blast
  next
    case (Inr u)
    with encoding_ok have yes: "edit P working = None \<and> encoder vw = None" by auto
    from Inr have "(\<exists>u. fst encoded = Inr u) \<longleftrightarrow>
        edit P processing = None \<and> download vw = None \<and> edit P prepared = None"
      by (simp add: encoded_def then_run_def call_def case_prod_beta split: option.splits)
    with yes show ?thesis by blast
  qed
  have unfolded: "process_video P vw (retrying_creator create) m att use_thread =
      (case encoded of
            (Inl e, evs) \<Rightarrow>
              (case video_failed P use_thread None e of (r, evs') \<Rightarrow> (r, evs @ evs'))
          | (Inr _, evs) \<Rightarrow>
              (case video_target P (retrying_creator create) m (mp4_name (filename att)) use_thread of
                 ((Inl e, evs'), thread_ref) \<Rightarrow>
                   (case video_failed P use_thread thread_ref e of
                      (r, evs'') \<Rightarrow> (r, evs @ evs' @ evs''))
               | ((Inr target, evs'), thread_ref) \<Rightarrow>
                   (case try_except (video_deliver P vw (mp4_name (filename att)) target use_thread thread_ref)
                           (video_failed P use_thread thread_ref) of
                      (r, evs'') \<Rightarrow> (r, evs @ evs' @ evs''))))"
    by (simp add: process_video_def Let_def encoded_def encoding_def processing_def working_def
        prepared_def)
  show ?thesis
  proof (cases "fst encoded")
    case (Inl e)
    with encoded_ok have no: "\<not> (edit P processing = None \<and> download vw = None \<and>
        edit P working = None \<and> encoder vw = None \<and> edit P prepared = None)" by simp
    from Inl have "created_names (snd (process_video P vw (retrying_creator create) m att
        use_thread)) = []"
      unfolding unfolded
      by (simp add: case_prod_beta created_names_append encoded_names created_names_video_failed)
    with no show ?thesis unfolding processing_def working_def prepared_def by auto
  next
    case (Inr u)
    with encoded_ok have yes: "edit P processing = None \<and> download vw = None \<and>
        edit P working = None \<and> encoder vw = None \<and> edit P prepared = None" by auto
    from Inr have "created_names (snd (process_video P vw (retrying_creator create) m att
        use_thread)) =
        created_names (snd (fst (video_target P (retrying_creator create) m
          (mp4_name (filename att)) use_thread)))"
      unfolding unfolded
      by (simp add: case_prod_beta created_names_append encoded_names created_names_video_failed
          created_names_try_except created_names_video_deliver split: sum.splits)
    with yes show ?thesis
      unfolding processing_def working_def prepared_def
      by (simp add: created_names_video_target)
  qed
qed

lemma truncate_thread_name_length:
  "(length n > 100 \<longrightarrow>
      truncate_thread_name n = take 97 n @ ''...'' \<and> length (truncate_thread_name n) = 100) \<and>
   (length n \<le> 100 \<longrightarrow> truncate_thread_name n = n)"
  by (simp add: truncate_thread_name_def)

text \<open>
  C8. In the PDF, DOCX and video workflows every attempt to create a thread is made with the
  truncated name (of the file name of the attachment; in the video workflow, of the name of the
  converted file), and, when the workflow gets as far as the choice of the target after the
  user chose a thread, such an attempt is made. The truncated name of a name of more than 100
  characters is its first 97 characters followed by three dots, 100 characters in all; a name
  of at most 100 characters is used as it is.
\<close>

theorem thread_name_used_for_creation:
  "set (created_names (snd (fst (process_pdf P read cancelled_after (retrying_creator create) m att
          processed use_thread)))) \<subseteq> {truncate_thread_name (filename att)} \<and>
   (edit P [Lit ''Converting PDF to images...''] = None \<and> read = Inr b \<longrightarrow>
      created_names (snd (fst (process_pdf P read cancelled_after (retrying_creator create) m att
          processed True))) \<noteq> [] \<and>
      hd (created_names (snd (fst (process_pdf P read cancelled_after (retrying_creator create) m
          att processed True)))) = truncate_thread_name (filename att)) \<and>
   set (created_names (snd (process_docx P docx_read converted (retrying_creator create) m att
          use_thread))) \<subseteq> {truncate_thread_name (filename att)} \<and>
   (edit P [Lit ''Converting DOCX to images...''] = None \<and> docx_read = None \<and>
    converted = Some (Suc k) \<longrightarrow>
      created_names (snd (process_docx P docx_read converted (retrying_creator create) m att True))
        \<noteq> [] \<and>
      hd (created_names (snd (process_docx P docx_read converted (retrying_creator create) m att
          True))) = truncate_thread_name (filename att)) \<and>
   set (created_names (snd (process_video P vw (retrying_creator create) m att use_thread)))
     \<subseteq> {truncate_thread_name (mp4_name (filename att))} \<and>
   (edit P [Lit ''Processing '', Lit (filename att), Lit ''... This may take a few minutes.''] = None \<and>
    download vw = None \<and>
    edit P [Lit ''Processing video... This may take a few minutes.''] = None \<and>
    encoder vw = None \<and>
    edit P [Lit ''Video processed. Preparing to post''] = None \<longrightarrow>
      created_names (snd (process_video P vw (retrying_creator create) m att True)) \<noteq> [] \<and>
      hd (created_names (snd (process_video P vw (retrying_creator create) m att True)))
        = truncate_thread_name (mp4_name (filename att))) \<and>
   (length n > 100 \<longrightarrow>
      truncate_thread_name n = take 97 n @ ''...'' \<and> length (take 97 n) = 97 \<and>
      length (truncate_thread_name n) = 100) \<and>
   (length n \<le> 100 \<longrightarrow> truncate_thread_name n = n)"
proof -
  have names: "xs \<noteq> [] \<and> set xs = {x} \<Longrightarrow> hd xs = x" for xs :: "string list" and x
    by (cases xs) auto
  have made: "created_names (snd (retrying_creator create x)) \<noteq> [] \<and>
      set (created_names (snd (retrying_creator create x))) = {x} \<and>
      hd (created_names (snd (retrying_creator create x))) = x" for x
    using created_names_retrying_creator [of create x]
      names [of "created_names (snd (retrying_creator create x))" x]
    by blast
  have pdf: "set (created_names (snd (fst (process_pdf P read cancelled_after
        (retrying_creator create) m att processed use_thread)))) \<subseteq> {truncate_thread_name (filename att)}"
    using made [of "truncate_thread_name (filename att)"]
    by (auto simp add: created_names_process_pdf)
  have pdf_made: "edit P [Lit ''Converting PDF to images...''] = None \<and> read = Inr b \<longrightarrow>
      created_names (snd (fst (process_pdf P read cancelled_after (retrying_creator create) m att
          processed True))) \<noteq> [] \<and>
      hd (created_names (snd (fst (process_pdf P read cancelled_after (retrying_creator create) m
          att processed True)))) = truncate_thread_name (filename att)"
    using made [of "truncate_thread_name (filename att)"]
    by (simp add: created_names_process_pdf)
  have docx: "set (created_names (snd (process_docx P docx_read converted (retrying_creator create)
        m att use_thread))) \<subseteq> {truncate_thread_name (filename att)}"
    using made [of "truncate_thread_name (filename att)"]
    by (auto simp add: created_names_process_docx)
  have docx_made: "edit P [Lit ''Converting DOCX to images...''] = None \<and> docx_read = None \<and>
    converted = Some (Suc k) \<longrightarrow>
      created_names (snd (process_docx P docx_read converted (retrying_creator create) m att True))
        \<noteq> [] \<and>
      hd (created_names (snd (process_docx P docx_read converted (retrying_creator create) m att
          True))) = truncate_thread_name (filename att)"
    using made [of "truncate_thread_name (filename att)"]
    by (simp add: created_names_process_docx)
  have video: "set (created_names (snd (process_video P vw (retrying_creator create) m att
        use_thread))) \<subseteq> {truncate_thread_name (mp4_name (filename att))}"
    using made [of "truncate_thread_name (mp4_name (filename att))"]
    by (auto simp add: created_names_process_video)
  have video_made: "edit P [Lit ''Processing '', Lit (filename att), Lit ''... This may take a few minutes.''] = None \<and>
    download vw = None \<and>
    edit P [Lit ''Processing video... This may take a few minutes.''] = None \<and>
    encoder vw = None \<and>
    edit P [Lit ''Video processed. Preparing to post''] = None \<longrightarrow>
      created_names (snd (process_video P vw (retrying_creator create) m att True)) \<noteq> [] \<and>
      hd (created_names (snd (process_video P vw (retrying_creator create) m att True)))
        = truncate_thread_name (mp4_name (filename att))"
    using made [of "truncate_thread_name (mp4_name (filename att))"]
    by (simp add: created_names_process_video)
  have cut: "(length n > 100 \<longrightarrow>
      truncate_thread_name n = take 97 n @ ''...'' \<and> length (take 97 n) = 97 \<and>
      length (truncate_thread_name n) = 100) \<and>
   (length n \<le> 100 \<longrightarrow> truncate_thread_name n = n)"
    by (simp add: truncate_thread_name_def)
  from pdf pdf_made docx docx_made video video_made cut show ?thesis by blast
qed

text \<open>
  The theorem at an attachment whose file name has 124 characters, in each of the three
  workflows: the thread is asked for under the first 97 of them and three dots.
\<close>

theorem thread_name_used_for_creation_witness:
  "length (replicate 120 CHR ''a'' @ ''.pdf'') > 100 \<and>
   hd (created_names (snd (fst (process_pdf
     \<lparr>edit = (\<lambda>c. None), send = (\<lambda>t i. None), resend = (\<lambda>t i. None),
      delete_status = None, delete_source = None, delete_thread = (\<lambda>t. None)\<rparr>
     (Inr (Some [Renders])) None (retrying_creator (\<lambda>attempt. Inr 9))
     \<lparr>message_id = 7, author_is_bot = False, in_guild = True,
      attachments = [\<lparr>filename = replicate 120 CHR ''a'' @ ''.pdf'', size_bytes = 1000,
                      attachment_id = 1\<rparr>],
      content = [], channel = TextChannel 3\<rparr>
     \<lparr>filename = replicate 120 CHR ''a'' @ ''.pdf'', size_bytes = 1000, attachment_id = 1\<rparr>
     {7} True))))
   = replicate 97 CHR ''a'' @ ''...'' \<and>
   hd (created_names (snd (process_docx
     \<lparr>edit = (\<lambda>c. None), send = (\<lambda>t i. None), resend = (\<lambda>t i. None),
      delete_status = None, delete_source = None, delete_thread = (\<lambda>t. None)\<rparr>
     None (Some (Suc 0)) (retrying_creator (\<lambda>attempt. Inr 9))
     \<lparr>message_id = 7, author_is_bot = False, in_guild = True,
      attachments = [\<lparr>filename = replicate 120 CHR ''a'' @ ''.pdf'', size_bytes = 1000,
                      attachment_id = 1\<rparr>],
      content = [], channel = TextChannel 3\<rparr>
     \<lparr>filename = replicate 120 CHR ''a'' @ ''.pdf'', size_bytes = 1000, attachment_id = 1\<rparr>
     True)))
   = replicate 97 CHR ''a'' @ ''...'' \<and>
   hd (created_names (snd (process_video
     \<lparr>edit = (\<lambda>c. None), send = (\<lambda>t i. None), resend = (\<lambda>t i. None),
      delete_status = None, delete_source = None, delete_thread = (\<lambda>t. None)\<rparr>
     \<lparr>download = None, encoder = None, within_limit = True, segmenting = Inr 0\<rparr>
     (retrying_creator (\<lambda>attempt. Inr 9))
     \<lparr>message_id = 7, author_is_bot = False, in_guild = True,
      attachments = [\<lparr>filename = replicate 120 CHR ''a'' @ ''.pdf'', size_bytes = 1000,
                      attachment_id = 1\<rparr>],
      content = [], channel = TextChannel 3\<rparr>
     \<lparr>filename = replicate 120 CHR ''a'' @ ''.pdf'', size_bytes = 1000, attachment_id = 1\<rparr>
     True)))
   = replicate 97 CHR ''a'' @ ''...'' \<and>
   length (replicate 97 CHR ''a'' @ ''...'') = 100 \<and>
   length ''report.pdf'' \<le> 100 \<and> truncate_thread_name ''report.pdf'' = ''report.pdf''"
proof -
  have name: "mp4_name (replicate 120 CHR ''a'' @ ''.pdf'') = replicate 120 CHR ''a'' @ ''.mp4''"
    by (simp add: mp4_name_def)
  have cut: "truncate_thread_name (replicate 120 CHR ''a'' @ ''.mp4'') = replicate 97 CHR ''a'' @ ''...''"
    by (simp add: truncate_thread_name_def)
  from thread_name_used_for_creation
    [of "\<lparr>edit = (\<lambda>c. None), send = (\<lambda>t i. None), resend = (\<lambda>t i. None),
          delete_status = None, delete_source = None, delete_thread = (\<lambda>t. None)\<rparr>"
        "Inr (Some [Renders])" None "\<lambda>attempt. Inr 9"
        "\<lparr>message_id = 7, author_is_bot = False, in_guild = True,
          attachments = [\<lparr>filename = replicate 120 CHR ''a'' @ ''.pdf'', size_bytes = 1000,
                          attachment_id = 1\<rparr>],
          content = [], channel = TextChannel 3\<rparr>"
        "\<lparr>filename = replicate 120 CHR ''a'' @ ''.pdf'', size_bytes = 1000, attachment_id = 1\<rparr>"
        "{7}" True "Some [Renders]" None "Some (Suc 0)" 0
        "\<lparr>download = None, encoder = None, within_limit = True, segmenting = Inr 0\<rparr>"
        "replicate 120 CHR ''a'' @ ''.pdf''"]
    thread_name_used_for_creation
    [of "\<lparr>edit = (\<lambda>c. None), send = (\<lambda>t i. None), resend = (\<lambda>t i. None),
          delete_status = None, delete_source = None, delete_thread = (\<lambda>t. None)\<rparr>"
        "Inr (Some [Renders])" None "\<lambda>attempt. Inr 9"
        "\<lparr>message_id = 7, author_is_bot = False, in_guild = True,
          attachments = [\<lparr>filename = replicate 120 CHR ''a'' @ ''.pdf'', size_bytes = 1000,
                          attachment_id = 1\<rparr>],
          content = [], channel = TextChannel 3\<rparr>"
        "\<lparr>filename = replicate 120 CHR ''a'' @ ''.pdf'', size_bytes = 1000, attachment_id = 1\<rparr>"
        "{7}" True "Some [Renders]" None "Some (Suc 0)" 0
        "\<lparr>download = None, encoder = None, within_limit = True, segmenting = Inr 0\<rparr>"
        "''report.pdf''"]
  show ?thesis by (simp add: name cut)
qed

section \<open>Properties of the fallback to the channel\<close>

lemma all_then_run:
  "list_all Q (snd (then_run r f)) \<longleftrightarrow>
     list_all Q (snd r) \<and> (case fst r of Inl e \<Rightarrow> True | Inr a \<Rightarrow> list_all Q (snd (f a)))"
  by (cases r) (simp add: then_run_def split: sum.splits prod.splits)

lemma all_try_except:
  "list_all Q (snd (try_except r h)) \<longleftrightarrow>
     list_all Q (snd r) \<and> (case fst r of Inl e \<Rightarrow> list_all Q (snd (h e)) | Inr a \<Rightarrow> True)"
  by (cases r) (simp add: try_except_def split: sum.splits prod.splits)

lemma all_call: "list_all Q (snd (call ev outcome)) \<longleftrightarrow> Q (ev outcome)"
  by (simp add: call_def split: option.splits)

lemma all_take: "list_all Q xs \<Longrightarrow> list_all Q (take n xs)"
  by (auto simp add: list_all_iff dest: in_set_takeD)

lemma final_status_append:
  "final_status s (xs @ ys) = final_status (final_status s xs) ys"
  by (induction s xs rule: final_status.induct) simp_all

lemma stays_in_send_page: "list_all (stays_in ch) (snd (send_page P ch i))"
  by (simp add: send_page_def then_run_def call_def has_mention_def
      split: option.splits exn.splits)

lemma stays_in_upload_pages:
  "list_all (stays_in ch) (snd (upload_pages P ch use_thread start_idx i doc))"
proof (induction doc arbitrary: i use_thread)
  case Nil
  show ?case by (simp add: return_def)
next
  case (Cons page rest)
  show ?case
    by (cases page) (simp_all add: all_then_run Cons stays_in_send_page split: sum.splits)
qed

lemma stays_in_convert:
  "list_all (stays_in ch) (snd (convert_and_upload_pdf P pdf_bytes ch use_thread))"
  by (simp add: convert_and_upload_pdf_def Let_def case_prod_beta stays_in_upload_pages
      split: option.splits sum.splits)

lemma stays_in_wait_for:
  "list_all Q (snd r) \<Longrightarrow> list_all Q (snd (wait_for cancelled_after r))"
  by (simp add: wait_for_def all_take split: option.splits)

lemma stays_in_safe_edit:
  "\<not> has_mention c \<Longrightarrow>
   list_all (stays_in (channel m)) (snd (safe_edit_processing_msg P m c))"
  by (simp add: safe_edit_processing_msg_def all_then_run all_try_except all_call
      split: sum.splits)

lemma stays_in_pdf_failed:
  "list_all (stays_in (channel m)) (snd (pdf_failed P m use_thread target e))"
proof -
  have a: "list_all (stays_in (channel m))
      (snd (safe_edit_processing_msg P m [WarningSign, Lit '' Permission error: '', StrOf x]))"
    for x
    by (rule stays_in_safe_edit) (simp add: has_mention_def)
  have b: "list_all (stays_in (channel m))
      (snd (safe_edit_processing_msg P m
        [CrossMark, Lit '' PDF processing timed out after 5 minutes.'']))"
    by (rule stays_in_safe_edit) (simp add: has_mention_def)
  have c: "list_all (stays_in (channel m))
      (snd (safe_edit_processing_msg P m [CrossMark, Lit '' Error processing PDF: '', StrOf x]))"
    for x
    by (rule stays_in_safe_edit) (simp add: has_mention_def)
  show ?thesis
    by (simp add: pdf_failed_def all_then_run all_try_except all_call return_def a b c
        split: sum.splits option.splits)
qed

lemma stays_in_pdf_deliver:
  "\<not> has_mention c \<Longrightarrow>
   list_all (stays_in (channel m))
     (snd (pdf_deliver P cancelled_after m pdf_bytes (channel m) (Some c) use_thread))"
  by (simp add: pdf_deliver_def all_then_run all_try_except all_call return_def
      stays_in_wait_for stays_in_convert split: sum.splits)

lemma pdf_target_falls_back:
  assumes "\<forall>t. fst (creator (truncate_thread_name (filename att))) \<noteq> Inr (Some t)"
  shows "pdf_target creator m att True =
           ((channel m, Some pdf_fallback), snd (creator (truncate_thread_name (filename att))))"
proof (cases "creator (truncate_thread_name (filename att))")
  case (Pair r evs)
  with assms show ?thesis
    by (cases r) (auto simp add: pdf_target_def split: option.splits)
qed

lemma pdf_fallback_unmentioned: "\<not> has_mention pdf_fallback"
  by (simp add: pdf_fallback_def has_mention_def)

lemma stays_in_process_pdf:
  assumes "\<forall>t. fst (creator (truncate_thread_name (filename att))) \<noteq> Inr (Some t)"
    and "list_all (stays_in (channel m)) (snd (creator (truncate_thread_name (filename att))))"
  shows "list_all (stays_in (channel m))
           (snd (fst (process_pdf P read cancelled_after creator m att processed True)))"
proof -
  have target: "pdf_target creator m att True =
      ((channel m, Some pdf_fallback), snd (creator (truncate_thread_name (filename att))))"
    using assms(1) by (rule pdf_target_falls_back)
  have deliver: "list_all (stays_in (channel m))
      (snd (pdf_deliver P cancelled_after m pdf_bytes (channel m) (Some pdf_fallback) True))"
    for pdf_bytes
    using pdf_fallback_unmentioned by (rule stays_in_pdf_deliver)
  show ?thesis
    using assms(2)
    by (cases read)
      (simp_all add: process_pdf_def Let_def then_run_def call_def case_prod_beta
        target deliver stays_in_pdf_failed all_try_except has_mention_def
        split: sum.splits option.splits)
qed

lemma final_status_process_pdf:
  assumes "\<forall>n t. fst (creator n) \<noteq> Inr (Some t)"
    and "edit P [Lit ''Converting PDF to images...''] = None"
    and "read = Inr doc"
    and "fst (wait_for cancelled_after (convert_and_upload_pdf P doc (channel m) True)) = Inr True"
    and "edit P pdf_fallback = None"
  shows "final_status s
           (snd (fst (process_pdf P read cancelled_after creator m att processed True)))
         = Shown pdf_fallback"
proof -
  have target: "pdf_target creator m att True =
      ((channel m, Some pdf_fallback), snd (creator (truncate_thread_name (filename att))))"
    using assms(1) by (intro pdf_target_falls_back) simp
  obtain evs where waited:
    "wait_for cancelled_after (convert_and_upload_pdf P doc (channel m) True) = (Inr True, evs)"
    using assms(4)
    by (cases "wait_for cancelled_after (convert_and_upload_pdf P doc (channel m) True)") simp
  have deliver: "pdf_deliver P cancelled_after m doc (channel m) (Some pdf_fallback) True =
      (Inr (), evs @ [Pause, EditStatus pdf_fallback None, DeleteSource (delete_source P)])"
    by (simp add: pdf_deliver_def waited assms(5) then_run_def try_except_def call_def
        return_def split: option.splits)
  have trace: "snd (fst (process_pdf P read cancelled_after creator m att processed True)) =
      [EditStatus [Lit ''Converting PDF to images...''] None, ReadAttachment None] @
      snd (creator (truncate_thread_name (filename att))) @
      evs @ [Pause, EditStatus pdf_fallback None, DeleteSource (delete_source P)]"
    by (simp add: process_pdf_def Let_def assms(2) assms(3) target deliver then_run_def
        try_except_def call_def)
  show ?thesis
    unfolding trace by (simp add: final_status_append)
qed

lemma stays_in_upload_segments:
  "list_all (stays_in ch) (snd (upload_segments P ch file_name n i left successful_uploads))"
proof (induction left arbitrary: i successful_uploads)
  case 0
  show ?case by (simp add: return_def)
next
  case (Suc left)
  show ?case
    by (simp add: Let_def all_then_run all_call Suc segment_def has_mention_def return_def
        split: sum.splits option.splits)
qed

lemma stays_in_handle_large_video:
  "list_all (stays_in ch) (snd (handle_large_video P vw file_name ch use_thread None))"
  by (simp add: handle_large_video_def Let_def all_then_run all_try_except all_call
      stays_in_upload_segments segments_warning_def has_mention_def return_def
      split: sum.splits)

lemma stays_in_video_deliver:
  "list_all (stays_in ch) (snd (video_deliver P vw file_name ch use_thread None))"
  by (simp add: video_deliver_def Let_def all_then_run all_try_except all_call
      stays_in_handle_large_video video_warning_def has_mention_def return_def
      split: sum.splits)

lemma stays_in_video_failed:
  "list_all (stays_in ch) (snd (video_failed P use_thread thread_ref e))"
  by (simp add: video_failed_def all_then_run all_try_except all_call has_mention_def
      return_def split: sum.splits option.splits)

lemma video_fallback_unmentioned: "\<not> has_mention video_fallback"
  by (simp add: video_fallback_def has_mention_def)

lemma video_target_falls_back:
  assumes "\<forall>n t. fst (creator n) \<noteq> Inr (Some t)"
  shows "snd (video_target P creator m file_name True) = None"
    and "fst (fst (video_target P creator m file_name True)) = Inr t \<Longrightarrow> t = channel m"
    and "fst (fst (video_target P creator m file_name True)) = Inr t \<Longrightarrow>
         EditStatus video_fallback None \<in> set (snd (fst (video_target P creator m file_name True)))"
    and "list_all (stays_in (channel m)) (snd (creator (truncate_thread_name file_name))) \<Longrightarrow>
         list_all (stays_in (channel m)) (snd (fst (video_target P creator m file_name True)))"
proof -
  obtain r evs where c: "creator (truncate_thread_name file_name) = (r, evs)"
    by (cases "creator (truncate_thread_name file_name)")
  from assms c have r: "(\<exists>e. r = Inl e) \<or> r = Inr None"
    by (cases r) (auto, metis fst_conv not_Some_eq)
  from r show "snd (video_target P creator m file_name True) = None"
    by (auto simp add: video_target_def c Let_def)
  from r show "t = channel m"
    if "fst (fst (video_target P creator m file_name True)) = Inr t"
    using that
    by (auto simp add: video_target_def c Let_def then_run_def try_except_def call_def
        return_def split: option.splits)
  from r show "EditStatus video_fallback None \<in>
      set (snd (fst (video_target P creator m file_name True)))"
    if "fst (fst (video_target P creator m file_name True)) = Inr t"
    using that
    by (auto simp add: video_target_def c Let_def then_run_def try_except_def call_def
        return_def split: option.splits)
  from r show "list_all (stays_in (channel m))
      (snd (fst (video_target P creator m file_name True)))"
    if "list_all (stays_in (channel m)) (snd (creator (truncate_thread_name file_name)))"
    using that video_fallback_unmentioned
    by (auto simp add: video_target_def c Let_def then_run_def try_except_def call_def
        return_def split: option.splits)
qed

text \<open>The retry loop sends nothing and shows nothing: its trace stays in every channel.\<close>

lemma stays_in_retry_loop:
  "list_all (stays_in ch) (snd (retry_loop create thread_name max_retries todo retry_delay))"
  by (induction create thread_name max_retries todo retry_delay rule: retry_loop.induct)
    (simp_all add: case_prod_beta split: sum.splits)

lemma stays_in_retrying_creator:
  "list_all (stays_in ch) (snd (retrying_creator create thread_name))"
  by (simp add: retrying_creator_def create_thread_with_retry_def case_prod_beta
      stays_in_retry_loop)

lemma stays_in_process_video:
  assumes fails: "\<forall>n t. fst (creator n) \<noteq> Inr (Some t)"
    and quiet: "\<forall>n. list_all (stays_in (channel m)) (snd (creator n))"
  shows "list_all (stays_in (channel m)) (snd (process_video P vw creator m att True))"
proof -
  define encoded where
    "encoded =
       then_run (call (EditStatus [Lit ''Processing '', Lit (filename att),
                                   Lit ''... This may take a few minutes.''])
                   (edit P [Lit ''Processing '', Lit (filename att),
                            Lit ''... This may take a few minutes.'']))
         (\<lambda>_. then_run (call ReadAttachment (download vw))
            (\<lambda>_. then_run
               (try_except
                  (then_run (call (EditStatus [Lit ''Processing video... This may take a few minutes.''])
                               (edit P [Lit ''Processing video... This may take a few minutes.'']))
                     (\<lambda>_. case encoder vw of
                             Some e \<Rightarrow> (Inl e, [])
                           | None \<Rightarrow> return ()))
                  (\<lambda>e. (Inl (Exception ''Processing failed''), [])))
               (\<lambda>_. call (EditStatus [Lit ''Video processed. Preparing to post''])
                       (edit P [Lit ''Video processed. Preparing to post'']))))"
  define chosen where "chosen = video_target P creator m (mp4_name (filename att)) True"
  have encoded_stays: "list_all (stays_in (channel m)) (snd encoded)"
    by (simp add: encoded_def all_then_run all_try_except all_call has_mention_def return_def
        split: sum.splits option.splits)
  have unfolded: "process_video P vw creator m att True =
      (case encoded of
            (Inl e, evs) \<Rightarrow>
              (case video_failed P True None e of (r, evs') \<Rightarrow> (r, evs @ evs'))
          | (Inr _, evs) \<Rightarrow>
              (case chosen of
                 ((Inl e, evs'), thread_ref) \<Rightarrow>
                   (case video_failed P True thread_ref e of
                      (r, evs'') \<Rightarrow> (r, evs @ evs' @ evs''))
               | ((Inr target, evs'), thread_ref) \<Rightarrow>
                   (case try_except (video_deliver P vw (mp4_name (filename att)) target True thread_ref)
                           (video_failed P True thread_ref) of
                      (r, evs'') \<Rightarrow> (r, evs @ evs' @ evs''))))"
    unfolding process_video_def Let_def encoded_def chosen_def by (rule refl)
  have no_thread: "snd chosen = None"
    unfolding chosen_def using fails by (rule video_target_falls_back(1))
  have chosen_stays: "list_all (stays_in (channel m)) (snd (fst chosen))"
    unfolding chosen_def using fails quiet by (intro video_target_falls_back(4)) simp_all
  have in_channel: "t = channel m" if "fst (fst chosen) = Inr t" for t
    using fails that unfolding chosen_def by (rule video_target_falls_back(2))
  have delivered: "list_all (stays_in (channel m))
      (snd (try_except (video_deliver P vw (mp4_name (filename att)) (channel m) True None)
              (video_failed P True None)))"
    by (simp add: all_try_except stays_in_video_deliver stays_in_video_failed split: sum.splits)
  show ?thesis
  proof (cases "fst encoded")
    case (Inl e)
    then show ?thesis
      unfolding unfolded
      by (simp add: case_prod_beta encoded_stays stays_in_video_failed)
  next
    case encoded_ok: (Inr u)
    show ?thesis
    proof (cases "fst (fst chosen)")
      case (Inl e)
      with encoded_ok show ?thesis
        unfolding unfolded
        by (simp add: case_prod_beta encoded_stays chosen_stays stays_in_video_failed)
    next
      case (Inr t)
      with in_channel have t: "fst (fst chosen) = Inr (channel m)" by simp
      with encoded_ok show ?thesis
        unfolding unfolded
        using delivered
        by (simp add: case_prod_beta encoded_stays chosen_stays no_thread)
    qed
  qed
qed

text \<open>
  C5, as the code has it. When the user chose a thread and the creation returns no thread or
  raises, the PDF workflow and the video workflow deliver to the original channel: the target
  is that channel, every send of the workflow goes there, and no text that the workflow sends
  or shows as its status mentions a thread. In the PDF workflow the final message chosen is
  the fallback warning, and when the conversion succeeds and the status edits succeed it is
  the status at the end. In the video workflow the fallback warning is shown when the target
  is chosen, as the status of that moment.
\<close>

theorem thread_creation_failure_falls_back:
  "(\<forall>n t. fst (creator n) \<noteq> Inr (Some t)) \<and>
   (\<forall>n. list_all (stays_in (channel m)) (snd (creator n))) \<longrightarrow>
     fst (pdf_target creator m att True) = (channel m, Some pdf_fallback) \<and>
     \<not> has_mention pdf_fallback \<and> hd pdf_fallback = WarningSign \<and>
     list_all (stays_in (channel m))
       (snd (fst (process_pdf P read cancelled_after creator m att processed True))) \<and>
     (edit P [Lit ''Converting PDF to images...''] = None \<and> read = Inr doc \<and>
      fst (wait_for cancelled_after (convert_and_upload_pdf P doc (channel m) True)) = Inr True \<and>
      edit P pdf_fallback = None \<longrightarrow>
        final_status s
          (snd (fst (process_pdf P read cancelled_after creator m att processed True)))
        = Shown pdf_fallback) \<and>
     snd (video_target P creator m file_name True) = None \<and>
     (\<forall>t. fst (fst (video_target P creator m file_name True)) = Inr t \<longrightarrow>
        t = channel m \<and>
        EditStatus video_fallback None
          \<in> set (snd (fst (video_target P creator m file_name True)))) \<and>
     \<not> has_mention video_fallback \<and> hd video_fallback = WarningSign \<and>
     list_all (stays_in (channel m)) (snd (process_video P vw creator m att True))"
proof
  assume hyp: "(\<forall>n t. fst (creator n) \<noteq> Inr (Some t)) \<and>
    (\<forall>n. list_all (stays_in (channel m)) (snd (creator n)))"
  then have fails: "\<forall>n t. fst (creator n) \<noteq> Inr (Some t)"
    and quiet: "\<forall>n. list_all (stays_in (channel m)) (snd (creator n))"
    by simp_all
  have target: "fst (pdf_target creator m att True) = (channel m, Some pdf_fallback)"
    using fails by (subst pdf_target_falls_back) simp_all
  have warning: "\<not> has_mention pdf_fallback \<and> hd pdf_fallback = WarningSign"
    by (simp add: pdf_fallback_def has_mention_def)
  have pdf_stays: "list_all (stays_in (channel m))
       (snd (fst (process_pdf P read cancelled_after creator m att processed True)))"
    using fails quiet by (intro stays_in_process_pdf) simp_all
  have pdf_final: "final_status s
          (snd (fst (process_pdf P read cancelled_after creator m att processed True)))
        = Shown pdf_fallback"
    if "edit P [Lit ''Converting PDF to images...''] = None \<and> read = Inr doc \<and>
      fst (wait_for cancelled_after (convert_and_upload_pdf P doc (channel m) True)) = Inr True \<and>
      edit P pdf_fallback = None"
    using fails that by (intro final_status_process_pdf [where doc = doc]) simp_all
  have no_thread: "snd (video_target P creator m file_name True) = None"
    using fails by (rule video_target_falls_back(1))
  have video_target: "t = channel m \<and>
        EditStatus video_fallback None
          \<in> set (snd (fst (video_target P creator m file_name True)))"
    if "fst (fst (video_target P creator m file_name True)) = Inr t" for t
    using video_target_falls_back(2) [OF fails that] video_target_falls_back(3) [OF fails that]
    by simp
  have video_warning: "\<not> has_mention video_fallback \<and> hd video_fallback = WarningSign"
    by (simp add: video_fallback_def has_mention_def)
  have video_stays: "list_all (stays_in (channel m)) (snd (process_video P vw creator m att True))"
    using fails quiet by (rule stays_in_process_video)
  from target warning pdf_stays pdf_final no_thread video_target video_warning video_stays
  show "fst (pdf_target creator m att True) = (channel m, Some pdf_fallback) \<and>
     \<not> has_mention pdf_fallback \<and> hd pdf_fallback = WarningSign \<and>
     list_all (stays_in (channel m))
       (snd (fst (process_pdf P read cancelled_after creator m att processed True))) \<and>
     (edit P [Lit ''Converting PDF to images...''] = None \<and> read = Inr doc \<and>
      fst (wait_for cancelled_after (convert_and_upload_pdf P doc (channel m) True)) = Inr True \<and>
      edit P pdf_fallback = None \<longrightarrow>
        final_status s
          (snd (fst (process_pdf P read cancelled_after creator m att processed True)))
        = Shown pdf_fallback) \<and>
     snd (video_target P creator m file_name True) = None \<and>
     (\<forall>t. fst (fst (video_target P creator m file_name True)) = Inr t \<longrightarrow>
        t = channel m \<and>
        EditStatus video_fallback None
          \<in> set (snd (fst (video_target P creator m file_name True)))) \<and>
     \<not> has_mention video_fallback \<and> hd video_fallback = WarningSign \<and>
     list_all (stays_in (channel m)) (snd (process_video P vw creator m att True))"
    by blast
qed

text \<open>
  The theorem at a PDF of two pages posted in a text channel where every attempt to create the
  thread is refused: the pages go to the channel and the status at the end is the fallback
  warning; the video workflow chooses the channel and shows its warning.
\<close>

theorem thread_creation_failure_falls_back_witness:
  "(\<forall>n t. fst (retrying_creator (\<lambda>attempt. Inl Forbidden) n) \<noteq> Inr (Some t)) \<and>
   (\<forall>n. list_all (stays_in (TextChannel 3))
          (snd (retrying_creator (\<lambda>attempt. Inl Forbidden) n))) \<and>
   fst (wait_for None (convert_and_upload_pdf
     \<lparr>edit = (\<lambda>c. None), send = (\<lambda>t i. None), resend = (\<lambda>t i. None),
      delete_status = None, delete_source = None, delete_thread = (\<lambda>t. None)\<rparr>
     (Some [Renders, Renders]) (TextChannel 3) True)) = Inr True \<and>
   final_status (Shown [Lit ''Choose an option:''])
     (snd (fst (process_pdf
       \<lparr>edit = (\<lambda>c. None), send = (\<lambda>t i. None), resend = (\<lambda>t i. None),
        delete_status = None, delete_source = None, delete_thread = (\<lambda>t. None)\<rparr>
       (Inr (Some [Renders, Renders])) None
       (retrying_creator (\<lambda>attempt. Inl Forbidden))
       \<lparr>message_id = 7, author_is_bot = False, in_guild = True,
        attachments = [\<lparr>filename = ''report.pdf'', size_bytes = 1000, attachment_id = 1\<rparr>],
        content = [], channel = TextChannel 3\<rparr>
       \<lparr>filename = ''report.pdf'', size_bytes = 1000, attachment_id = 1\<rparr>
       {7} True)))
   = Shown [WarningSign, Lit '' Could not create thread. Posted PDF in current channel instead.''] \<and>
   list_all (stays_in (TextChannel 3))
     (snd (fst (process_pdf
       \<lparr>edit = (\<lambda>c. None), send = (\<lambda>t i. None), resend = (\<lambda>t i. None),
        delete_status = None, delete_source = None, delete_thread = (\<lambda>t. None)\<rparr>
       (Inr (Some [Renders, Renders])) None
       (retrying_creator (\<lambda>attempt. Inl Forbidden))
       \<lparr>message_id = 7, author_is_bot = False, in_guild = True,
        attachments = [\<lparr>filename = ''report.pdf'', size_bytes = 1000, attachment_id = 1\<rparr>],
        content = [], channel = TextChannel 3\<rparr>
       \<lparr>filename = ''report.pdf'', size_bytes = 1000, attachment_id = 1\<rparr>
       {7} True))) \<and>
   fst (fst (video_target
     \<lparr>edit = (\<lambda>c. None), send = (\<lambda>t i. None), resend = (\<lambda>t i. None),
      delete_status = None, delete_source = None, delete_thread = (\<lambda>t. None)\<rparr>
     (retrying_creator (\<lambda>attempt. Inl Forbidden))
     \<lparr>message_id = 7, author_is_bot = False, in_guild = True,
      attachments = [\<lparr>filename = ''report.pdf'', size_bytes = 1000, attachment_id = 1\<rparr>],
      content = [], channel = TextChannel 3\<rparr>
     ''report.mp4'' True)) = Inr (TextChannel 3) \<and>
   EditStatus video_fallback None \<in> set (snd (fst (video_target
     \<lparr>edit = (\<lambda>c. None), send = (\<lambda>t i. None), resend = (\<lambda>t i. None),
      delete_status = None, delete_source = None, delete_thread = (\<lambda>t. None)\<rparr>
     (retrying_creator (\<lambda>attempt. Inl Forbidden))
     \<lparr>message_id = 7, author_is_bot = False, in_guild = True,
      attachments = [\<lparr>filename = ''report.pdf'', size_bytes = 1000, attachment_id = 1\<rparr>],
      content = [], channel = TextChannel 3\<rparr>
     ''report.mp4'' True))) \<and>
   list_all (stays_in (TextChannel 3))
     (snd (process_video
       \<lparr>edit = (\<lambda>c. None), send = (\<lambda>t i. None), resend = (\<lambda>t i. None),
        delete_status = None, delete_source = None, delete_thread = (\<lambda>t. None)\<rparr>
       \<lparr>download = None, encoder = None, within_limit = True, segmenting = Inr 0\<rparr>
       (retrying_creator (\<lambda>attempt. Inl Forbidden))
       \<lparr>message_id = 7, author_is_bot = False, in_guild = True,
        attachments = [\<lparr>filename = ''report.pdf'', size_bytes = 1000, attachment_id = 1\<rparr>],
        content = [], channel = TextChannel 3\<rparr>
       \<lparr>filename = ''report.pdf'', size_bytes = 1000, attachment_id = 1\<rparr>
       True))"
proof -
  have refused: "retrying_creator (\<lambda>attempt. Inl Forbidden) n =
      (Inr None, [CreateThread 0 n (Inl Forbidden), Backoff 2,
                  CreateThread 1 n (Inl Forbidden), Backoff 4,
                  CreateThread 2 n (Inl Forbidden)])" for n
    by (simp add: retrying_creator_def create_thread_with_retry_def range_3)
  have converted: "fst (wait_for None (convert_and_upload_pdf
     \<lparr>edit = (\<lambda>c. None), send = (\<lambda>t i. None), resend = (\<lambda>t i. None),
      delete_status = None, delete_source = None, delete_thread = (\<lambda>t. None)\<rparr>
     (Some [Renders, Renders]) (TextChannel 3) True)) = Inr True"
    by (simp add: wait_for_def convert_and_upload_pdf_def send_page_def then_run_def
        return_def)
  have chosen: "fst (fst (video_target
     \<lparr>edit = (\<lambda>c. None), send = (\<lambda>t i. None), resend = (\<lambda>t i. None),
      delete_status = None, delete_source = None, delete_thread = (\<lambda>t. None)\<rparr>
     (retrying_creator (\<lambda>attempt. Inl Forbidden))
     \<lparr>message_id = 7, author_is_bot = False, in_guild = True,
      attachments = [\<lparr>filename = ''report.pdf'', size_bytes = 1000, attachment_id = 1\<rparr>],
      content = [], channel = TextChannel 3\<rparr>
     ''report.mp4'' True)) = Inr (TextChannel 3)"
    by (simp add: video_target_def refused Let_def then_run_def try_except_def call_def
        return_def)
  from converted chosen thread_creation_failure_falls_back
    [where creator = "retrying_creator (\<lambda>attempt. Inl Forbidden)"
       and m = "\<lparr>message_id = 7, author_is_bot = False, in_guild = True,
        attachments = [\<lparr>filename = ''report.pdf'', size_bytes = 1000, attachment_id = 1\<rparr>],
        content = [], channel = TextChannel 3\<rparr>"
       and att = "\<lparr>filename = ''report.pdf'', size_bytes = 1000, attachment_id = 1\<rparr>"
       and P = "\<lparr>edit = (\<lambda>c. None), send = (\<lambda>t i. None), resend = (\<lambda>t i. None),
        delete_status = None, delete_source = None, delete_thread = (\<lambda>t. None)\<rparr>"
       and read = "Inr (Some [Renders, Renders])" and cancelled_after = None
       and processed = "{7}" and doc = "Some [Renders, Renders]"
       and s = "Shown [Lit ''Choose an option:'']" and file_name = "''report.mp4''"
       and vw = "\<lparr>download = None, encoder = None, within_limit = True, segmenting = Inr 0\<rparr>"]
  show ?thesis
    by (simp add: refused pdf_fallback_def)
qed

text \<open>
  C5 as the specification words it fails in the video workflow. A video within the size limit
  is posted in a text channel, the user chooses a thread, every attempt to create it is
  refused, and every other call succeeds: the fallback warning is replaced by the status of
  the upload, and at the end the status message is deleted.
\<close>

theorem process_video_fallback_status_deleted_counterexample:
  "fst (retrying_creator (\<lambda>attempt. Inl Forbidden) (truncate_thread_name (mp4_name ''clip.mov'')))
     = Inr None \<and>
   process_video
     \<lparr>edit = (\<lambda>c. None), send = (\<lambda>t i. None), resend = (\<lambda>t i. None),
      delete_status = None, delete_source = None, delete_thread = (\<lambda>t. None)\<rparr>
     \<lparr>download = None, encoder = None, within_limit = True, segmenting = Inr 0\<rparr>
     (retrying_creator (\<lambda>attempt. Inl Forbidden))
     \<lparr>message_id = 7, author_is_bot = False, in_guild = True,
      attachments = [\<lparr>filename = ''clip.mov'', size_bytes = 1000, attachment_id = 1\<rparr>],
      content = [], channel = TextChannel 3\<rparr>
     \<lparr>filename = ''clip.mov'', size_bytes = 1000, attachment_id = 1\<rparr>
     True
   = (Inr (),
      [EditStatus [Lit ''Processing '', Lit ''clip.mov'', Lit ''... This may take a few minutes.''] None,
       ReadAttachment None,
       EditStatus [Lit ''Processing video... This may take a few minutes.''] None,
       EditStatus [Lit ''Video processed. Preparing to post''] None,
       CreateThread 0 ''clip.mp4'' (Inl Forbidden), Backoff 2,
       CreateThread 1 ''clip.mp4'' (Inl Forbidden), Backoff 4,
       CreateThread 2 ''clip.mp4'' (Inl Forbidden),
       EditStatus [WarningSign, Lit '' Could not create thread. Posting video in channel instead...''] None,
       EditStatus [Lit ''Uploading video''] None,
       Send (TextChannel 3) (FileItem ''clip.mp4'') None,
       Send (TextChannel 3)
         (TextItem [WarningSign, Lit '' **WARNING**: Do not download or share this video outside the server.''])
         None,
       DeleteSource None,
       DeleteStatus None]) \<and>
   final_status (Shown [Lit ''Choose an option:''])
     (snd (process_video
       \<lparr>edit = (\<lambda>c. None), send = (\<lambda>t i. None), resend = (\<lambda>t i. None),
        delete_status = None, delete_source = None, delete_thread = (\<lambda>t. None)\<rparr>
       \<lparr>download = None, encoder = None, within_limit = True, segmenting = Inr 0\<rparr>
       (retrying_creator (\<lambda>attempt. Inl Forbidden))
       \<lparr>message_id = 7, author_is_bot = False, in_guild = True,
        attachments = [\<lparr>filename = ''clip.mov'', size_bytes = 1000, attachment_id = 1\<rparr>],
        content = [], channel = TextChannel 3\<rparr>
       \<lparr>filename = ''clip.mov'', size_bytes = 1000, attachment_id = 1\<rparr>
       True))
   = Deleted"
proof -
  have run: "process_video
     \<lparr>edit = (\<lambda>c. None), send = (\<lambda>t i. None), resend = (\<lambda>t i. None),
      delete_status = None, delete_source = None, delete_thread = (\<lambda>t. None)\<rparr>
     \<lparr>download = None, encoder = None, within_limit = True, segmenting = Inr 0\<rparr>
     (retrying_creator (\<lambda>attempt. Inl Forbidden))
     \<lparr>message_id = 7, author_is_bot = False, in_guild = True,
      attachments = [\<lparr>filename = ''clip.mov'', size_bytes = 1000, attachment_id = 1\<rparr>],
      content = [], channel = TextChannel 3\<rparr>
     \<lparr>filename = ''clip.mov'', size_bytes = 1000, attachment_id = 1\<rparr>
     True
   = (Inr (),
      [EditStatus [Lit ''Processing '', Lit ''clip.mov'', Lit ''... This may take a few minutes.''] None,
       ReadAttachment None,
       EditStatus [Lit ''Processing video... This may take a few minutes.''] None,
       EditStatus [Lit ''Video processed. Preparing to post''] None,
       CreateThread 0 ''clip.mp4'' (Inl Forbidden), Backoff 2,
       CreateThread 1 ''clip.mp4'' (Inl Forbidden), Backoff 4,
       CreateThread 2 ''clip.mp4'' (Inl Forbidden),
       EditStatus [WarningSign, Lit '' Could not create thread. Posting video in channel instead...''] None,
       EditStatus [Lit ''Uploading video''] None,
       Send (TextChannel 3) (FileItem ''clip.mp4'') None,
       Send (TextChannel 3)
         (TextItem [WarningSign, Lit '' **WARNING**: Do not download or share this video outside the server.''])
         None,
       DeleteSource None,
       DeleteStatus None])"
    by (simp add: process_video_def video_target_def video_deliver_def video_fallback_def
        video_warning_def mp4_name_def Let_def retrying_creator_def create_thread_with_retry_def range_3
        truncate_thread_name_def then_run_def try_except_def call_def return_def)
  have refused: "fst (retrying_creator (\<lambda>attempt. Inl Forbidden)
      (truncate_thread_name (mp4_name ''clip.mov''))) = Inr None"
    by (simp add: retrying_creator_def create_thread_with_retry_def range_3)
  show ?thesis
    unfolding run using refused by simp
qed

end
